theory Spec2Isabelle
  imports Complex_Main "HOL-Library.AList" "HOL-Library.Multiset"
begin

section \<open>Conventions of the embedding\<close>

text \<open>
  The development embeds the memory-selection core of the cover letter generator:
  the store of \<^verbatim>\<open>memory_core.py\<close>, the status computation of \<^verbatim>\<open>temporal_manager.py\<close>,
  the analyser, scorer and selector of \<^verbatim>\<open>relevance_engine.py\<close>, and the analyser,
  semantic matcher and scorer of \<^verbatim>\<open>advanced_relevance_engine.py\<close>.

  \<^item> A Python \<^verbatim>\<open>str\<close> is a \<^typ>\<open>string\<close>; a character stands for the code point of the
    same number, so the strings covered are those of code points below 256. The
    description given to the advanced analyser can in addition hold lone surrogates
    (type \<open>py_str\<close>).
  \<^item> The interpreter is CPython 3.\<open>minor\<close>. The functions that take no \<open>minor\<close> are
    written for 3.11 and later, where every keyword of the tables compiles as a regular
    expression; the functions that take it cover the earlier versions too.
  \<^item> A Python \<^verbatim>\<open>float\<close> is a \<^typ>\<open>rat\<close>: arithmetic is exact, rounding is not modelled.
  \<^item> A naive \<^verbatim>\<open>datetime\<close> is an \<^typ>\<open>int\<close>, the number of microseconds on the time
    line; the range limits of the datetime type (years 1 to 9999) are not modelled.
  \<^item> A \<^verbatim>\<open>dict\<close> is an association list in insertion order.
  \<^item> An exception is a value of \<open>py_error\<close>; a function that can raise returns
    \<open>py_error + 'a\<close>.
  \<^item> A method name with a leading underscore loses it (\<^verbatim>\<open>_load_memory\<close> is
    \<open>load_memory\<close>).
\<close>

datatype py_error =
    JSONDecodeError
  | FileNotFoundError
  | PermissionError
  | UnicodeDecodeError
  | UnicodeEncodeError
  | ReError
  | KeyError string

text \<open>
  Code that can raise is written with three combinators: \<open>raise_bind\<close> runs a
  computation and hands its value on, unless it raised; \<open>raise_map\<close> and \<open>raise_fold\<close>
  are loops over a list that stop at the first element whose step raises.
\<close>

definition raise_bind :: "py_error + 'a \<Rightarrow> ('a \<Rightarrow> py_error + 'b) \<Rightarrow> py_error + 'b" where
  "raise_bind m f = (case m of Inl e \<Rightarrow> Inl e | Inr x \<Rightarrow> f x)"

fun raise_map :: "('a \<Rightarrow> py_error + 'b) \<Rightarrow> 'a list \<Rightarrow> py_error + 'b list" where
  "raise_map f [] = Inr []"
| "raise_map f (x # xs) =
     raise_bind (f x) (\<lambda>y. raise_bind (raise_map f xs) (\<lambda>ys. Inr (y # ys)))"

fun raise_fold :: "('a \<Rightarrow> 'b \<Rightarrow> py_error + 'b) \<Rightarrow> 'a list \<Rightarrow> 'b \<Rightarrow> py_error + 'b" where
  "raise_fold f [] s = Inr s"
| "raise_fold f (x # xs) s = raise_bind (f x s) (raise_fold f xs)"

section \<open>Strings\<close>

definition is_space :: "char \<Rightarrow> bool" where
  \<comment> \<open>\<^verbatim>\<open>str.isspace\<close>, which is also the class \<^verbatim>\<open>\s\<close> of \<^verbatim>\<open>re\<close>\<close>
  "is_space c =
     (let n = (of_char c :: nat)
      in (9 \<le> n \<and> n \<le> 13) \<or> (28 \<le> n \<and> n \<le> 32) \<or> n = 133 \<or> n = 160)"

definition is_word_char :: "char \<Rightarrow> bool" where
  \<comment> \<open>the class \<^verbatim>\<open>\w\<close> of \<^verbatim>\<open>re\<close> on \<^verbatim>\<open>str\<close> patterns\<close>
  "is_word_char c =
     (let n = (of_char c :: nat)
      in (48 \<le> n \<and> n \<le> 57) \<or> (65 \<le> n \<and> n \<le> 90) \<or> n = 95 \<or> (97 \<le> n \<and> n \<le> 122)
         \<or> n = 170 \<or> n = 178 \<or> n = 179 \<or> n = 181 \<or> n = 185 \<or> n = 186
         \<or> (188 \<le> n \<and> n \<le> 190) \<or> (192 \<le> n \<and> n \<le> 214) \<or> (216 \<le> n \<and> n \<le> 246)
         \<or> (248 \<le> n \<and> n \<le> 255))"

definition lower_char :: "char \<Rightarrow> char" where
  "lower_char c =
     (let n = (of_char c :: nat)
      in if (65 \<le> n \<and> n \<le> 90) \<or> (192 \<le> n \<and> n \<le> 214) \<or> (216 \<le> n \<and> n \<le> 222)
         then char_of (n + 32) else c)"

definition lower :: "string \<Rightarrow> string" where
  "lower s = map lower_char s"

definition strip :: "string \<Rightarrow> string" where
  "strip s = rev (dropWhile is_space (rev (dropWhile is_space s)))"

fun starts_with :: "string \<Rightarrow> string \<Rightarrow> bool" where
  \<comment> \<open>\<open>starts_with p s\<close>: \<^verbatim>\<open>s.startswith(p)\<close>\<close>
  "starts_with [] s = True"
| "starts_with (p # ps) [] = False"
| "starts_with (p # ps) (c # cs) = (p = c \<and> starts_with ps cs)"

fun py_in :: "string \<Rightarrow> string \<Rightarrow> bool" where
  \<comment> \<open>\<open>py_in p s\<close>: the substring test \<^verbatim>\<open>p in s\<close>\<close>
  "py_in p [] = (p = [])"
| "py_in p (c # cs) = (starts_with p (c # cs) \<or> py_in p cs)"

definition replace_char :: "char \<Rightarrow> char \<Rightarrow> string \<Rightarrow> string" where
  \<comment> \<open>\<^verbatim>\<open>s.replace(a, b)\<close> for one-character \<^verbatim>\<open>a\<close> and \<^verbatim>\<open>b\<close>\<close>
  "replace_char a b s = map (\<lambda>c. if c = a then b else c) s"

text \<open>
  A Python \<^verbatim>\<open>str\<close> can hold code points that are no characters: the lone surrogates
  (U+D800 to U+DFFF), which \<^verbatim>\<open>str.encode\<close> refuses. The description handed to the advanced
  analyser, which encodes it, is therefore a list of code points, each a character or a
  surrogate; \<open>encode\<close> gives its UTF-8 bytes. Where a description has passed the
  encoding it has no surrogate, and \<open>characters\<close> is the description as a string.
\<close>

datatype code_point = Latin char | Surrogate

type_synonym py_str = "code_point list"

definition utf8 :: "char \<Rightarrow> nat list" where
  "utf8 c =
     (let n = (of_char c :: nat)
      in if n < 128 then [n] else [192 + n div 64, 128 + n mod 64])"

fun encode :: "py_str \<Rightarrow> py_error + nat list" where
  \<comment> \<open>\<^verbatim>\<open>s.encode()\<close>: UTF-8, errors strict\<close>
  "encode [] = Inr []"
| "encode (Latin c # s) = raise_bind (encode s) (\<lambda>bytes. Inr (utf8 c @ bytes))"
| "encode (Surrogate # s) = Inl UnicodeEncodeError"

definition characters :: "py_str \<Rightarrow> string" where
  "characters s = concat (map (\<lambda>c. case c of Latin ch \<Rightarrow> [ch] | Surrogate \<Rightarrow> []) s)"

section \<open>Temporal events\<close>

type_synonym datetime = int

definition timedelta_days :: "int \<Rightarrow> int" where
  "timedelta_days d = d * 86400000000"

text \<open>
  The dictionary of a stored event (\<^verbatim>\<open>asdict\<close> of a \<^verbatim>\<open>TemporalMemory\<close>). The field
  \<^verbatim>\<open>auto_update_rules\<close> is read by none of the functions below and is left out.
\<close>

record TemporalMemory =
  event_type :: string
  description :: string
  start_date :: "string option"
  end_date :: "string option"
  status :: string

definition calculate_event_status ::
  "TemporalMemory \<Rightarrow> datetime option \<Rightarrow> datetime option \<Rightarrow> datetime \<Rightarrow> string" where
  "calculate_event_status event start_dt end_dt current_date =
     (case start_dt of
        None \<Rightarrow> status event
      | Some s \<Rightarrow>
          (let pre_start_buffer = timedelta_days 7;
               post_end_buffer = timedelta_days 30
           in if current_date < s - pre_start_buffer then ''upcoming''
              else if current_date < s then ''starting_soon''
              else if (case end_dt of None \<Rightarrow> False | Some e \<Rightarrow> current_date > e + post_end_buffer)
                then ''completed''
              else if (case end_dt of None \<Rightarrow> False | Some e \<Rightarrow> current_date > e)
                then ''recently_completed''
              else ''current''))"

definition example_event :: TemporalMemory where
  "example_event =
     \<lparr>event_type = ''education'', description = ''Starting a degree next month'',
      start_date = None, end_date = None, status = ''upcoming''\<rparr>"

section \<open>The memory store\<close>

text \<open>
  Stored records are the dictionaries \<^verbatim>\<open>asdict\<close> makes of the dataclasses. A field
  name that two dataclasses share, or that is a keyword here, gets a prefix: the
  \<^verbatim>\<open>context\<close> of a skill is \<open>skill_context\<close>, the \<^verbatim>\<open>examples\<close> and \<^verbatim>\<open>context\<close> of a
  style preference are \<open>style_examples\<close> and \<open>style_context\<close>, the \<^verbatim>\<open>last_updated\<close>
  of the metadata is \<open>meta_last_updated\<close>.
\<close>

record SkillMemory =
  skill_name :: string
  proficiency_level :: string
  skill_context :: string
  examples :: "string list"
  last_updated :: string

record StyleMemory =
  preference_type :: string
  rule :: string
  style_examples :: "string list"
  success_rate :: rat
  last_applied :: string
  style_context :: string

record FeedbackMemory =
  feedback_text :: string
  cover_letter_context :: string
  outcome :: string
  extracted_insights :: "string list"
  applied_changes :: "string list"
  effectiveness_score :: rat

record user_profile =
  personal_info :: "(string \<times> string) list"
  education :: "string list"
  skills :: "(string \<times> SkillMemory) list"
  experiences :: "(string \<times> string) list"
  preferences :: "(string \<times> string) list"

record learning_patterns =
  successful_approaches :: "string list"
  failed_approaches :: "string list"
  preference_trends :: "(string \<times> string) list"

record metadata =
  created :: string
  meta_last_updated :: string
  total_interactions :: nat
  successful_generations :: nat

record memory_data =
  user_profile :: user_profile
  style_preferences :: "(string \<times> StyleMemory list) list"
  temporal_events :: "TemporalMemory list"
  feedback_history :: "FeedbackMemory list"
  learning_patterns :: learning_patterns
  metadata :: metadata

text \<open>
  The memory file as the loader meets it: absent, or present, and then the value is what
  \<^verbatim>\<open>open(self.memory_file, 'r', encoding='utf-8')\<close> followed by \<^verbatim>\<open>json.load(f)\<close>
  yields: the document parsed, or the exception raised (\<open>PermissionError\<close> by
  \<^verbatim>\<open>open\<close> on a file that may not be read, \<open>FileNotFoundError\<close> by \<^verbatim>\<open>open\<close> on a file
  removed since the existence test, \<open>UnicodeDecodeError\<close> by the read of bytes that are
  not UTF-8, \<open>JSONDecodeError\<close> by the parser on text that is not JSON). A parsed document
  is taken to have the shape of the memory structure.
\<close>

datatype memory_file = Absent | Present "py_error + memory_data"

record MemoryCore =
  memory_file :: memory_file
  memory_data :: memory_data

definition os_path_exists :: "memory_file \<Rightarrow> bool" where
  "os_path_exists f = (f \<noteq> Absent)"

definition open_json_load :: "memory_file \<Rightarrow> py_error + memory_data" where
  "open_json_load f = (case f of Absent \<Rightarrow> Inl FileNotFoundError | Present r \<Rightarrow> r)"

definition new_memory_structure :: "string \<Rightarrow> string \<Rightarrow> memory_data" where
  \<comment> \<open>the two arguments are the two readings of \<^verbatim>\<open>datetime.now().isoformat()\<close>\<close>
  "new_memory_structure now1 now2 =
     \<lparr>user_profile =
        \<lparr>personal_info = [], education = [], skills = [], experiences = [], preferences = []\<rparr>,
      style_preferences =
        [(''avoid_phrases'', []), (''prefer_phrases'', []), (''tone_preferences'', []),
         (''structure_preferences'', [])],
      temporal_events = [],
      feedback_history = [],
      learning_patterns =
        \<lparr>successful_approaches = [], failed_approaches = [], preference_trends = []\<rparr>,
      metadata =
        \<lparr>created = now1, meta_last_updated = now2, total_interactions = 0,
         successful_generations = 0\<rparr>\<rparr>"

definition load_memory :: "memory_file \<Rightarrow> string \<Rightarrow> string \<Rightarrow> py_error + memory_data" where
  "load_memory f now1 now2 =
     (if os_path_exists f then
        (case open_json_load f of
           Inr doc \<Rightarrow> Inr doc
         | Inl e \<Rightarrow>
             if e = JSONDecodeError \<or> e = FileNotFoundError
             then Inr (new_memory_structure now1 now2)
             else Inl e)
      else Inr (new_memory_structure now1 now2))"

definition save_memory :: "MemoryCore \<Rightarrow> string \<Rightarrow> MemoryCore" where
  \<comment> \<open>the write is taken to succeed; \<open>now\<close> is \<^verbatim>\<open>datetime.now().isoformat()\<close>\<close>
  "save_memory mc now =
     (let d = (memory_data mc)\<lparr>metadata := (metadata (memory_data mc))\<lparr>meta_last_updated := now\<rparr>\<rparr>
      in \<lparr>memory_file = Present (Inr d), memory_data = d\<rparr>)"

definition skill_key_of :: "string \<Rightarrow> string" where
  \<comment> \<open>\<^verbatim>\<open>skill.skill_name.lower().replace(" ", "_")\<close>\<close>
  "skill_key_of name = replace_char CHR '' '' CHR ''_'' (lower name)"

definition add_skill_memory :: "MemoryCore \<Rightarrow> SkillMemory \<Rightarrow> string \<Rightarrow> MemoryCore" where
  "add_skill_memory mc skill now =
     (let skill_key = skill_key_of (skill_name skill);
          d = memory_data mc;
          d' = d\<lparr>user_profile :=
                  (user_profile d)\<lparr>skills := AList.update skill_key skill (skills (user_profile d))\<rparr>\<rparr>
      in save_memory (mc\<lparr>memory_data := d'\<rparr>) now)"

definition add_temporal_event :: "MemoryCore \<Rightarrow> TemporalMemory \<Rightarrow> string \<Rightarrow> MemoryCore" where
  "add_temporal_event mc event now =
     (let d = memory_data mc
      in save_memory (mc\<lparr>memory_data := d\<lparr>temporal_events := temporal_events d @ [event]\<rparr>\<rparr>) now)"

definition get_current_skills :: "MemoryCore \<Rightarrow> (string \<times> SkillMemory) list" where
  "get_current_skills mc = skills (user_profile (memory_data mc))"

definition get_style_preferences :: "MemoryCore \<Rightarrow> (string \<times> StyleMemory list) list" where
  "get_style_preferences mc = style_preferences (memory_data mc)"

definition get_current_temporal_events :: "MemoryCore \<Rightarrow> TemporalMemory list" where
  "get_current_temporal_events mc =
     filter (\<lambda>event. status event \<in> set [''current'', ''upcoming''])
       (temporal_events (memory_data mc))"

text \<open>
  The normalisation the specification words for the skill key: the name lower-cased, every
  run of whitespace and punctuation collapsed to one separator. It is stated here to be
  compared with \<open>skill_key_of\<close>, which is what the store computes.
\<close>

definition spec_separator :: "char \<Rightarrow> bool" where
  "spec_separator c = (\<not> is_word_char c \<or> c = CHR ''_'')"

fun spec_collapse :: "bool \<Rightarrow> string \<Rightarrow> string" where
  "spec_collapse in_run [] = []"
| "spec_collapse in_run (c # cs) =
     (if spec_separator c then (if in_run then [] else [CHR ''_'']) @ spec_collapse True cs
      else c # spec_collapse False cs)"

definition spec_normalized_key :: "string \<Rightarrow> string" where
  "spec_normalized_key name = spec_collapse False (lower name)"

definition empty_core :: MemoryCore where
  "empty_core = \<lparr>memory_file = Absent, memory_data = new_memory_structure ''t0'' ''t0''\<rparr>"

definition example_skill :: "string \<Rightarrow> string \<Rightarrow> SkillMemory" where
  "example_skill name stamp =
     \<lparr>skill_name = name, proficiency_level = ''experienced'',
      skill_context = ''mentioned in feedback'', examples = [], last_updated = stamp\<rparr>"

section \<open>Regular expressions of the engines\<close>

text \<open>
  The engines search with three shapes of pattern. The first is a keyword of a table
  between two word boundaries, \<^verbatim>\<open>r'\b' + keyword + r'\b'\<close>. The keyword is used as a
  pattern, not escaped: in the keywords of the tables the only characters that are not
  literal are the dot (any character but the newline) and the doubled plus of
  \<^verbatim>\<open>c++\<close>, which \<^verbatim>\<open>re\<close> reads as a possessive repetition on Python 3.11 and later,
  and refuses on earlier versions (see \<open>re_compile\<close> below).
\<close>

datatype atom = Lit char | AnyChar | PossPlus char

definition atom_of :: "char \<Rightarrow> atom" where
  "atom_of c = (if c = CHR ''.'' then AnyChar else Lit c)"

fun regex_of :: "string \<Rightarrow> atom list" where
  "regex_of (c # d # e # cs) =
     (if d = CHR ''+'' \<and> e = CHR ''+'' then PossPlus c # regex_of cs
      else atom_of c # regex_of (d # e # cs))"
| "regex_of (c # cs) = atom_of c # regex_of cs"
| "regex_of [] = []"

fun match_atoms :: "atom list \<Rightarrow> string \<Rightarrow> nat option" where
  \<comment> \<open>the number of characters the atoms consume at the head of the text\<close>
  "match_atoms [] s = Some 0"
| "match_atoms (Lit c # as) s =
     (case s of [] \<Rightarrow> None
      | x # xs \<Rightarrow> if x = c then map_option Suc (match_atoms as xs) else None)"
| "match_atoms (AnyChar # as) s =
     (case s of [] \<Rightarrow> None
      | x # xs \<Rightarrow> if x \<noteq> CHR 0x0A then map_option Suc (match_atoms as xs) else None)"
| "match_atoms (PossPlus c # as) s =
     (let n = length (takeWhile (\<lambda>x. x = c) s)
      in if n = 0 then None else map_option (\<lambda>k. n + k) (match_atoms as (drop n s)))"

definition head :: "string \<Rightarrow> char option" where
  "head s = (case s of [] \<Rightarrow> None | c # _ \<Rightarrow> Some c)"

definition word_boundary :: "char option \<Rightarrow> char option \<Rightarrow> bool" where
  \<comment> \<open>\<^verbatim>\<open>\b\<close> between the character before and the character after the position\<close>
  "word_boundary a b =
     ((case a of None \<Rightarrow> False | Some c \<Rightarrow> is_word_char c) \<noteq>
      (case b of None \<Rightarrow> False | Some c \<Rightarrow> is_word_char c))"

definition match_word :: "atom list \<Rightarrow> char option \<Rightarrow> string \<Rightarrow> nat option" where
  "match_word p prev s =
     (if word_boundary prev (head s) then
        (case match_atoms p s of
           None \<Rightarrow> None
         | Some n \<Rightarrow>
             if word_boundary (if n = 0 then prev else Some (s ! (n - 1))) (head (drop n s))
             then Some n else None)
      else None)"

fun findall_count :: "atom list \<Rightarrow> nat \<Rightarrow> char option \<Rightarrow> string \<Rightarrow> nat" where
  \<comment> \<open>the scan of \<^verbatim>\<open>re.findall\<close>: \<open>skip\<close> characters belong to the last match,
      \<open>prev\<close> is the character before the position\<close>
  "findall_count p skip prev [] = 0"
| "findall_count p skip prev (c # cs) =
     (if skip > 0 then findall_count p (skip - 1) (Some c) cs
      else (case match_word p prev (c # cs) of
              None \<Rightarrow> findall_count p 0 (Some c) cs
            | Some n \<Rightarrow> Suc (findall_count p (n - 1) (Some c) cs)))"

definition count_keyword :: "string \<Rightarrow> string \<Rightarrow> nat" where
  \<comment> \<open>\<^verbatim>\<open>len(re.findall(r'\b' + keyword + r'\b', text))\<close>\<close>
  "count_keyword keyword text = findall_count (regex_of keyword) 0 None text"

text \<open>
  The compilation of a keyword depends on the interpreter. The project asks for Python 3.8
  or later (\<^verbatim>\<open>check_python_version\<close> of \<^verbatim>\<open>setup.py\<close>); a run is on CPython 3.\<open>minor\<close>.
  From 3.11 on \<^verbatim>\<open>re\<close> has possessive repetitions and reads \<^verbatim>\<open>c++\<close> as one. Before 3.11 a
  plus that follows a plus is refused: \<^verbatim>\<open>re.compile\<close> raises \<^verbatim>\<open>re.error\<close> (multiple repeat),
  here \<open>ReError\<close>, whatever the text to be searched. \<open>regex_of\<close> and \<open>count_keyword\<close>
  above are the compilation and the count of 3.11 and later.
\<close>

definition is_possessive :: "atom \<Rightarrow> bool" where
  "is_possessive a = (case a of PossPlus c \<Rightarrow> True | _ \<Rightarrow> False)"

definition refused :: "nat \<Rightarrow> string \<Rightarrow> bool" where
  \<comment> \<open>the keyword has a possessive repetition and the interpreter is older than 3.11\<close>
  "refused minor keyword = (minor < 11 \<and> list_ex is_possessive (regex_of keyword))"

definition re_compile :: "nat \<Rightarrow> string \<Rightarrow> py_error + atom list" where
  "re_compile minor keyword =
     (if refused minor keyword then Inl ReError else Inr (regex_of keyword))"

definition count_keyword_on :: "nat \<Rightarrow> string \<Rightarrow> string \<Rightarrow> py_error + nat" where
  \<comment> \<open>\<^verbatim>\<open>len(re.findall(r'\b' + keyword + r'\b', text))\<close> on CPython 3.\<open>minor\<close>\<close>
  "count_keyword_on minor keyword text =
     raise_bind (re_compile minor keyword) (\<lambda>p. Inr (findall_count p 0 None text))"

text \<open>
  The second shape introduces a clause: a literal, then optional characters, then
  \<^verbatim>\<open>\s*\<close>, then one group that runs to the next stop character, as in
  \<^verbatim>\<open>r"required?:?\s*([^.]*)"\<close>. A pattern is the pair of the literal and the optional
  characters; \<^verbatim>\<open>re.findall\<close> returns the groups.
\<close>

type_synonym intro_pattern = "string \<times> string"

fun skip_optional :: "string \<Rightarrow> string \<Rightarrow> string" where
  "skip_optional [] s = s"
| "skip_optional (opt # opts) s =
     skip_optional opts (case s of [] \<Rightarrow> [] | c # cs \<Rightarrow> if c = opt then cs else c # cs)"

definition match_intro :: "intro_pattern \<Rightarrow> (char \<Rightarrow> bool) \<Rightarrow> string \<Rightarrow> (string \<times> nat) option" where
  \<comment> \<open>the group and the length of the whole match at the head of the text\<close>
  "match_intro p stop s =
     (if starts_with (fst p) s then
        (let r1 = drop (length (fst p)) s;
             r2 = skip_optional (snd p) r1;
             r3 = dropWhile is_space r2;
             cap = takeWhile (\<lambda>c. \<not> stop c) r3
         in Some (cap, length s - length r3 + length cap))
      else None)"

fun findall_intro :: "intro_pattern \<Rightarrow> (char \<Rightarrow> bool) \<Rightarrow> nat \<Rightarrow> string \<Rightarrow> string list" where
  "findall_intro p stop skip [] = []"
| "findall_intro p stop skip (c # cs) =
     (if skip > 0 then findall_intro p stop (skip - 1) cs
      else (case match_intro p stop (c # cs) of
              None \<Rightarrow> findall_intro p stop 0 cs
            | Some (cap, n) \<Rightarrow> cap # findall_intro p stop (n - 1) cs))"

definition findall_clause :: "intro_pattern \<Rightarrow> (char \<Rightarrow> bool) \<Rightarrow> string \<Rightarrow> string list" where
  "findall_clause p stop text = findall_intro p stop 0 text"

text \<open>The third shape, \<^verbatim>\<open>r'\b\w+\b'\<close>, finds the maximal runs of word characters.\<close>

fun word_runs :: "string \<Rightarrow> string \<Rightarrow> string list" where
  "word_runs w [] = (if w = [] then [] else [w])"
| "word_runs w (c # cs) =
     (if is_word_char c then word_runs (w @ [c]) cs
      else (if w = [] then [] else [w]) @ word_runs [] cs)"

definition findall_words :: "string \<Rightarrow> string list" where
  "findall_words text = word_runs [] text"

section \<open>The relevance engine\<close>

text \<open>The tables of \<^verbatim>\<open>RelevanceEngine.__init__\<close>, in the order of the source.\<close>

definition self_tech_domains :: "(string \<times> string list) list" where
  "self_tech_domains =
    [(''databases'',
        [''sql'', ''mysql'', ''postgresql'', ''oracle'', ''mongodb'', ''nosql'',
         ''database'', ''db'', ''data'', ''query'']),
      (''programming'',
        [''python'', ''java'', ''c++'', ''javascript'', ''nodejs'', ''php'', ''ruby'',
         ''go'', ''rust'', ''.net'']),
      (''web'',
        [''html'', ''css'', ''react'', ''angular'', ''vue'', ''frontend'', ''backend'',
         ''web'', ''http'', ''api'', ''rest'']),
      (''cloud'',
        [''aws'', ''azure'', ''gcp'', ''cloud'', ''docker'', ''kubernetes'', ''serverless'',
         ''microservices'']),
      (''networking'',
        [''network'', ''tcp'', ''ip'', ''dns'', ''firewall'', ''vpn'', ''router'',
         ''switch'', ''security'']),
      (''systems'',
        [''linux'', ''windows'', ''unix'', ''server'', ''admin'', ''infrastructure'',
         ''deployment'']),
      (''data'',
        [''analytics'', ''visualization'', ''reporting'', ''bi'', ''etl'', ''data mining'',
         ''statistics'']),
      (''security'',
        [''security'', ''cybersecurity'', ''encryption'', ''authentication'',
         ''authorization'', ''compliance'']),
      (''automation'',
        [''automation'', ''scripting'', ''powershell'', ''bash'', ''workflow'', ''ci/cd'',
         ''devops'']),
      (''support'',
        [''helpdesk'', ''support'', ''troubleshooting'', ''customer service'',
         ''technical support''])]"

definition self_business_domains :: "(string \<times> string list) list" where
  "self_business_domains =
    [(''business_analysis'',
        [''business analyst'', ''process analyst'', ''systems analyst'',
         ''business analysis'', ''requirements'', ''process improvement'', ''workflow'',
         ''documentation'']),
      (''finance'',
        [''finance'', ''financial'', ''accounting'', ''order to cash'', ''otc'',
         ''cash application'', ''collections'', ''credit'', ''deductions'', ''ap'', ''ar'',
         ''gl'', ''revenue'']),
      (''process_improvement'',
        [''process improvement'', ''lean'', ''six sigma'', ''process optimization'',
         ''efficiency'', ''streamline'', ''process redesign'', ''continuous improvement'']),
      (''project_management'',
        [''project management'', ''project manager'', ''project coordination'',
         ''stakeholder management'', ''timeline'', ''deliverables'', ''milestones'']),
      (''business_intelligence'',
        [''business intelligence'', ''bi'', ''power bi'', ''tableau'',
         ''data visualization'', ''dashboard'', ''reporting'', ''analytics'', ''insights'']),
      (''erp_systems'',
        [''sap'', ''oracle'', ''erp'', ''enterprise systems'', ''crm'', ''salesforce'',
         ''workday'', ''peoplesoft'']),
      (''rpa_automation'',
        [''rpa'', ''robotic process automation'', ''uipath'', ''automation anywhere'',
         ''blue prism'', ''process automation'']),
      (''change_management'',
        [''change management'', ''training'', ''user adoption'', ''stakeholder engagement'',
         ''communication'', ''transformation'']),
      (''data_analysis'',
        [''data analysis'', ''excel'', ''pivot tables'', ''vlookup'', ''data modeling'',
         ''statistical analysis'', ''metrics''])]"

definition self_role_types :: "(string \<times> string list) list" where
  "self_role_types =
    [(''technical_it'',
        [''technician'', ''engineer'', ''developer'', ''administrator'',
         ''support specialist'', ''network'', ''system admin'', ''it specialist'',
         ''security analyst'', ''identity analyst'', ''access analyst'', ''iam analyst'',
         ''technical analyst'', ''it analyst'', ''systems analyst'']),
      (''business_analyst'',
        [''business analyst'', ''process analyst'', ''functional analyst'',
         ''process development analyst'', ''business systems analyst'']),
      (''finance'',
        [''accountant'', ''financial analyst'', ''controller'', ''finance manager'',
         ''accounts payable'', ''accounts receivable'']),
      (''project_management'',
        [''project manager'', ''program manager'', ''scrum master'', ''project coordinator'']),
      (''management'',
        [''manager'', ''director'', ''supervisor'', ''team lead'', ''department head''])]"

definition technical_context_indicators :: "string list" where
  "technical_context_indicators =
    [''active directory'', ''powershell'', ''server'', ''network'', ''windows'', ''linux'',
     ''infrastructure'', ''security'', ''authentication'', ''user accounts'',
     ''provisioning'', ''system administration'', ''it professional'', ''technical'',
     ''hardware'', ''software'']"

definition business_context_indicators :: "string list" where
  "business_context_indicators =
    [''process improvement'', ''business requirements'', ''stakeholder'', ''workflow'',
     ''order to cash'', ''otc'', ''collections'', ''finance'', ''accounting'', ''rpa'',
     ''business intelligence'', ''transformation'', ''change management'', ''business case'']"

definition technical_only_terms :: "string list" where
  "technical_only_terms =
    [''technical support'', ''network security'', ''windows administration'', ''hardware'']"

definition business_technical_terms :: "string list" where
  "business_technical_terms =
    [''data analysis'', ''sql'', ''database'', ''automation'', ''reporting'', ''excel'',
     ''power bi'']"

text \<open>
  The introductory patterns of \<^verbatim>\<open>analyze_job_requirements\<close>, each the pair of its
  literal and its optional characters: \<^verbatim>\<open>r"required?:?\s*([^.]*)"\<close> is
  \<open>(''require'', ''d:'')\<close>. The flag \<^verbatim>\<open>re.IGNORECASE\<close> changes nothing on a text that
  is already lower-cased.
\<close>

definition required_patterns :: "intro_pattern list" where
  "required_patterns =
     [(''require'', ''d:''), (''must have'', '':''), (''essential'', '':''),
      (''minimum requirement'', ''s:''), (''qualification'', ''s:'')]"

definition preferred_patterns :: "intro_pattern list" where
  "preferred_patterns =
     [(''preferre'', ''d:''), (''nice to have'', '':''), (''bonus'', '':''), (''plus'', '':''),
      (''desired'', '':'')]"

definition responsibility_patterns :: "intro_pattern list" where
  "responsibility_patterns =
     [(''responsibilitie'', ''s:''), (''duties'', '':''), (''you will'', '':'')]"

definition is_dot :: "char \<Rightarrow> bool" where
  "is_dot c = (c = CHR ''.'')"

text \<open>
  The dictionary \<^verbatim>\<open>analysis\<close>. The two domain maps are \<^verbatim>\<open>defaultdict(float)\<close>; they
  are only assigned to and iterated over.
\<close>

record job_analysis =
  required_skills :: "string list"
  preferred_skills :: "string list"
  tech_domains :: "(string \<times> rat) list"
  business_domains :: "(string \<times> rat) list"
  experience_level :: string
  key_responsibilities :: "string list"
  company_focus :: string
  explicit_technologies :: "string list"
  job_role_type :: string
  primary_focus :: string

definition role_pattern_score :: "string \<Rightarrow> string list \<Rightarrow> nat" where
  "role_pattern_score job_lower patterns =
     sum_list (map (\<lambda>pattern. count_keyword pattern job_lower +
                      (if py_in pattern (take 200 job_lower) then 3 else 0)) patterns)"

fun first_max :: "string \<times> nat \<Rightarrow> (string \<times> nat) list \<Rightarrow> string \<times> nat" where
  \<comment> \<open>\<^verbatim>\<open>max\<close> keeps the first of the largest entries\<close>
  "first_max best [] = best"
| "first_max best (x # xs) = first_max (if snd x > snd best then x else best) xs"

definition classify_job_role :: "string \<Rightarrow> string" where
  \<comment> \<open>\<open>role_scores\<close> has the five keys of \<open>self_role_types\<close>, so the two \<^verbatim>\<open>+=\<close> find
      their key and \<^verbatim>\<open>max\<close> has an argument that is not empty\<close>
  "classify_job_role job_lower =
     (let role_scores0 =
            map (\<lambda>(role_type, patterns). (role_type, role_pattern_score job_lower patterns))
              self_role_types;
          technical_context_count =
            length (filter (\<lambda>indicator. py_in indicator job_lower) technical_context_indicators);
          business_context_count =
            length (filter (\<lambda>indicator. py_in indicator job_lower) business_context_indicators);
          role_scores1 =
            (if technical_context_count > business_context_count + 2
             then AList.map_entry ''technical_it'' (\<lambda>v. v + technical_context_count * 2) role_scores0
             else if business_context_count > technical_context_count + 2
             then AList.map_entry ''business_analyst'' (\<lambda>v. v + business_context_count * 2) role_scores0
             else role_scores0);
          role_scores2 =
            (if py_in ''analyst'' job_lower \<and> technical_context_count \<ge> 3
             then AList.map_entry ''technical_it'' (\<lambda>v. v + 5) role_scores1
             else role_scores1)
      in (case role_scores2 of
            [] \<Rightarrow> ''unknown''
          | r # rs \<Rightarrow> if snd (first_max r rs) > 0 then fst (first_max r rs) else ''unknown''))"

definition content_score :: "(string \<times> string list) list \<Rightarrow> string \<Rightarrow> nat" where
  "content_score domains job_lower =
     sum_list (map (\<lambda>(domain, keywords).
       sum_list (map (\<lambda>keyword. count_keyword keyword job_lower) keywords)) domains)"

definition score_business_content :: "string \<Rightarrow> nat" where
  "score_business_content job_lower = content_score self_business_domains job_lower"

definition score_technical_content :: "string \<Rightarrow> nat" where
  "score_technical_content job_lower = content_score self_tech_domains job_lower"

definition keyword_score :: "string list \<Rightarrow> string \<Rightarrow> rat \<Rightarrow> rat" where
  "keyword_score keywords job_lower weight =
     sum_list (map (\<lambda>keyword. of_nat (count_keyword keyword job_lower) * weight) keywords)"

definition analyze_business_requirements :: "string \<Rightarrow> job_analysis \<Rightarrow> rat \<Rightarrow> job_analysis" where
  "analyze_business_requirements job_lower analysis weight =
     fold (\<lambda>(domain, keywords) a.
             (let domain_score = keyword_score keywords job_lower weight
              in if domain_score > 0
                 then a\<lparr>business_domains := AList.update domain domain_score (business_domains a)\<rparr>
                 else a))
       self_business_domains analysis"

definition analyze_technical_requirements :: "string \<Rightarrow> job_analysis \<Rightarrow> rat \<Rightarrow> job_analysis" where
  "analyze_technical_requirements job_lower analysis weight =
     fold (\<lambda>(domain, keywords) a.
             (let domain_score = keyword_score keywords job_lower weight
              in if domain_score > 0
                 then a\<lparr>tech_domains := AList.update domain domain_score (tech_domains a)\<rparr>
                 else a))
       self_tech_domains analysis"

definition extract_all_terms :: "string \<Rightarrow> string list" where
  \<comment> \<open>\<^verbatim>\<open>list(set(terms))\<close>: the order of the result is not fixed by Python\<close>
  "extract_all_terms text =
     (let text_lower = lower text
      in remdups
           (filter (\<lambda>keyword. py_in keyword text_lower) (concat (map snd self_tech_domains)) @
            filter (\<lambda>keyword. py_in keyword text_lower) (concat (map snd self_business_domains))))"

definition analyze_job_requirements :: "string \<Rightarrow> job_analysis" where
  \<comment> \<open>the analysis of a description that is not in \<^verbatim>\<open>job_analysis_cache\<close>\<close>
  "analyze_job_requirements job_description =
     (let job_lower = lower job_description;
          analysis0 =
            \<lparr>required_skills = [], preferred_skills = [], tech_domains = [],
             business_domains = [], experience_level = ''mid'', key_responsibilities = [],
             company_focus = [], explicit_technologies = [], job_role_type = ''unknown'',
             primary_focus = ''unknown''\<rparr>;
          analysis1 = analysis0\<lparr>job_role_type := classify_job_role job_lower\<rparr>;
          analysis2 =
            (if job_role_type analysis1 \<in> set [''business_analyst'', ''finance'', ''project_management'']
             then analyze_business_requirements job_lower
                    (analysis1\<lparr>primary_focus := ''business''\<rparr>) 1
             else if job_role_type analysis1 = ''technical_it''
             then analyze_technical_requirements job_lower
                    (analysis1\<lparr>primary_focus := ''technical''\<rparr>) 1
             else (let business_score = score_business_content job_lower;
                       technical_score = score_technical_content job_lower
                   in if business_score > technical_score
                      then analyze_technical_requirements job_lower
                             (analyze_business_requirements job_lower
                                (analysis1\<lparr>primary_focus := ''business''\<rparr>) 1) (3 / 10)
                      else analyze_business_requirements job_lower
                             (analyze_technical_requirements job_lower
                                (analysis1\<lparr>primary_focus := ''technical''\<rparr>) 1) (3 / 10)));
          analysis3 = analysis2\<lparr>required_skills := required_skills analysis2 @
            concat (map (\<lambda>pattern. concat (map extract_all_terms
              (findall_clause pattern is_dot job_lower))) required_patterns)\<rparr>;
          analysis4 = analysis3\<lparr>preferred_skills := preferred_skills analysis3 @
            concat (map (\<lambda>pattern. concat (map extract_all_terms
              (findall_clause pattern is_dot job_lower))) preferred_patterns)\<rparr>;
          analysis5 =
            (if \<exists>term \<in> set [''senior'', ''lead'', ''principal'', ''architect'']. py_in term job_lower
             then analysis4\<lparr>experience_level := ''senior''\<rparr>
             else if \<exists>term \<in> set [''junior'', ''entry'', ''associate'', ''1-2 years'']. py_in term job_lower
             then analysis4\<lparr>experience_level := ''junior''\<rparr>
             else analysis4)
      in analysis5\<lparr>key_responsibilities := key_responsibilities analysis5 @
           concat (map (\<lambda>pattern. findall_clause pattern is_dot job_lower)
             responsibility_patterns)\<rparr>)"

subsection \<open>The analyser on a given interpreter\<close>

text \<open>
  The functions above are what the analyser computes once every keyword has compiled, as
  it does on Python 3.11 and later. The functions of this subsection are the same
  methods, statement by statement, on CPython 3.\<open>minor\<close>, with each call of
  \<^verbatim>\<open>re.findall\<close> on a keyword as a computation that can raise. They carry the name of
  the method with the suffix \<open>_on\<close>. The introductory patterns compile on every version.
\<close>

definition role_pattern_score_on :: "nat \<Rightarrow> string \<Rightarrow> string list \<Rightarrow> py_error + nat" where
  "role_pattern_score_on minor job_lower patterns =
     raise_bind
       (raise_map (\<lambda>pattern.
            raise_bind (count_keyword_on minor pattern job_lower)
              (\<lambda>matches. Inr (matches + (if py_in pattern (take 200 job_lower) then 3 else 0))))
          patterns)
       (\<lambda>scores. Inr (sum_list scores))"

definition classify_job_role_on :: "nat \<Rightarrow> string \<Rightarrow> py_error + string" where
  "classify_job_role_on minor job_lower =
     raise_bind
       (raise_map (\<lambda>(role_type, patterns).
            raise_bind (role_pattern_score_on minor job_lower patterns)
              (\<lambda>score. Inr (role_type, score)))
          self_role_types)
       (\<lambda>role_scores0.
          (let technical_context_count =
                 length (filter (\<lambda>indicator. py_in indicator job_lower)
                   technical_context_indicators);
               business_context_count =
                 length (filter (\<lambda>indicator. py_in indicator job_lower)
                   business_context_indicators);
               role_scores1 =
                 (if technical_context_count > business_context_count + 2
                  then AList.map_entry ''technical_it''
                         (\<lambda>v. v + technical_context_count * 2) role_scores0
                  else if business_context_count > technical_context_count + 2
                  then AList.map_entry ''business_analyst''
                         (\<lambda>v. v + business_context_count * 2) role_scores0
                  else role_scores0);
               role_scores2 =
                 (if py_in ''analyst'' job_lower \<and> technical_context_count \<ge> 3
                  then AList.map_entry ''technical_it'' (\<lambda>v. v + 5) role_scores1
                  else role_scores1)
           in Inr (case role_scores2 of
                     [] \<Rightarrow> ''unknown''
                   | r # rs \<Rightarrow>
                       if snd (first_max r rs) > 0 then fst (first_max r rs) else ''unknown'')))"

definition content_score_on ::
  "nat \<Rightarrow> (string \<times> string list) list \<Rightarrow> string \<Rightarrow> py_error + nat" where
  "content_score_on minor domains job_lower =
     raise_bind
       (raise_map (\<lambda>(domain, keywords).
            raise_bind (raise_map (\<lambda>keyword. count_keyword_on minor keyword job_lower) keywords)
              (\<lambda>counts. Inr (sum_list counts)))
          domains)
       (\<lambda>scores. Inr (sum_list scores))"

definition score_business_content_on :: "nat \<Rightarrow> string \<Rightarrow> py_error + nat" where
  "score_business_content_on minor job_lower =
     content_score_on minor self_business_domains job_lower"

definition score_technical_content_on :: "nat \<Rightarrow> string \<Rightarrow> py_error + nat" where
  "score_technical_content_on minor job_lower =
     content_score_on minor self_tech_domains job_lower"

definition keyword_score_on :: "nat \<Rightarrow> string list \<Rightarrow> string \<Rightarrow> rat \<Rightarrow> py_error + rat" where
  "keyword_score_on minor keywords job_lower weight =
     raise_bind
       (raise_map (\<lambda>keyword.
            raise_bind (count_keyword_on minor keyword job_lower)
              (\<lambda>count. Inr (of_nat count * weight)))
          keywords)
       (\<lambda>scores. Inr (sum_list scores))"

definition analyze_business_requirements_on ::
  "nat \<Rightarrow> string \<Rightarrow> job_analysis \<Rightarrow> rat \<Rightarrow> py_error + job_analysis" where
  "analyze_business_requirements_on minor job_lower analysis weight =
     raise_fold (\<lambda>(domain, keywords) a.
          raise_bind (keyword_score_on minor keywords job_lower weight)
            (\<lambda>domain_score.
               Inr (if domain_score > 0
                    then a\<lparr>business_domains :=
                           AList.update domain domain_score (business_domains a)\<rparr>
                    else a)))
       self_business_domains analysis"

definition analyze_technical_requirements_on ::
  "nat \<Rightarrow> string \<Rightarrow> job_analysis \<Rightarrow> rat \<Rightarrow> py_error + job_analysis" where
  "analyze_technical_requirements_on minor job_lower analysis weight =
     raise_fold (\<lambda>(domain, keywords) a.
          raise_bind (keyword_score_on minor keywords job_lower weight)
            (\<lambda>domain_score.
               Inr (if domain_score > 0
                    then a\<lparr>tech_domains := AList.update domain domain_score (tech_domains a)\<rparr>
                    else a)))
       self_tech_domains analysis"

definition analyze_job_requirements_on :: "nat \<Rightarrow> string \<Rightarrow> py_error + job_analysis" where
  \<comment> \<open>the analysis of a description that is not in \<^verbatim>\<open>job_analysis_cache\<close>\<close>
  "analyze_job_requirements_on minor job_description =
     (let job_lower = lower job_description;
          analysis0 =
            \<lparr>required_skills = [], preferred_skills = [], tech_domains = [],
             business_domains = [], experience_level = ''mid'', key_responsibilities = [],
             company_focus = [], explicit_technologies = [], job_role_type = ''unknown'',
             primary_focus = ''unknown''\<rparr>
      in raise_bind (classify_job_role_on minor job_lower) (\<lambda>role_type.
           (let analysis1 = analysis0\<lparr>job_role_type := role_type\<rparr>
            in raise_bind
                 (if job_role_type analysis1 \<in>
                       set [''business_analyst'', ''finance'', ''project_management'']
                  then analyze_business_requirements_on minor job_lower
                         (analysis1\<lparr>primary_focus := ''business''\<rparr>) 1
                  else if job_role_type analysis1 = ''technical_it''
                  then analyze_technical_requirements_on minor job_lower
                         (analysis1\<lparr>primary_focus := ''technical''\<rparr>) 1
                  else raise_bind (score_business_content_on minor job_lower)
                         (\<lambda>business_score.
                            raise_bind (score_technical_content_on minor job_lower)
                              (\<lambda>technical_score.
                                 if business_score > technical_score
                                 then raise_bind
                                        (analyze_business_requirements_on minor job_lower
                                           (analysis1\<lparr>primary_focus := ''business''\<rparr>) 1)
                                        (\<lambda>a. analyze_technical_requirements_on minor job_lower
                                                a (3 / 10))
                                 else raise_bind
                                        (analyze_technical_requirements_on minor job_lower
                                           (analysis1\<lparr>primary_focus := ''technical''\<rparr>) 1)
                                        (\<lambda>a. analyze_business_requirements_on minor job_lower
                                                a (3 / 10)))))
                 (\<lambda>analysis2.
                    (let analysis3 = analysis2\<lparr>required_skills := required_skills analysis2 @
                           concat (map (\<lambda>pattern. concat (map extract_all_terms
                             (findall_clause pattern is_dot job_lower))) required_patterns)\<rparr>;
                         analysis4 = analysis3\<lparr>preferred_skills := preferred_skills analysis3 @
                           concat (map (\<lambda>pattern. concat (map extract_all_terms
                             (findall_clause pattern is_dot job_lower))) preferred_patterns)\<rparr>;
                         analysis5 =
                           (if \<exists>term \<in> set [''senior'', ''lead'', ''principal'', ''architect''].
                                 py_in term job_lower
                            then analysis4\<lparr>experience_level := ''senior''\<rparr>
                            else if \<exists>term \<in> set [''junior'', ''entry'', ''associate'',
                                   ''1-2 years'']. py_in term job_lower
                            then analysis4\<lparr>experience_level := ''junior''\<rparr>
                            else analysis4)
                     in Inr (analysis5\<lparr>key_responsibilities := key_responsibilities analysis5 @
                          concat (map (\<lambda>pattern. findall_clause pattern is_dot job_lower)
                            responsibility_patterns)\<rparr>))))))"

section \<open>Scoring\<close>

fun domain_matching ::
  "(string \<times> string list) list \<Rightarrow> (string \<times> rat) list \<Rightarrow> string \<Rightarrow> string \<Rightarrow> rat \<Rightarrow> py_error + rat" where
  \<comment> \<open>the loop over the items of a domain map of the analysis; \<open>self.domains[domain]\<close>
      raises \<open>KeyError\<close> on a domain that is not in the table\<close>
  "domain_matching domains [] name ctx score = Inr score"
| "domain_matching domains ((domain, domain_score) # items) name ctx score =
     (case map_of domains domain of
        None \<Rightarrow> Inl (KeyError domain)
      | Some domain_keywords \<Rightarrow>
          domain_matching domains items name ctx
            (score + sum_list (map (\<lambda>keyword.
               if py_in keyword name \<or> py_in keyword ctx
               then min (domain_score / 10) (8 / 10) else 0) domain_keywords)))"

definition score_business_skill :: "string \<Rightarrow> string \<Rightarrow> job_analysis \<Rightarrow> py_error + rat" where
  "score_business_skill name ctx job_analysis =
     (case domain_matching self_business_domains (business_domains job_analysis) name ctx 0 of
        Inl e \<Rightarrow> Inl e
      | Inr score \<Rightarrow>
          (let is_technical_only = (\<exists>term \<in> set technical_only_terms. py_in term name);
               is_business_technical = (\<exists>term \<in> set business_technical_terms. py_in term name)
           in Inr (if is_technical_only \<and> \<not> is_business_technical
                   then max (score - 6 / 10) (1 / 10) else score)))"

definition score_technical_skill :: "string \<Rightarrow> string \<Rightarrow> job_analysis \<Rightarrow> py_error + rat" where
  "score_technical_skill name ctx job_analysis =
     (case domain_matching self_tech_domains (tech_domains job_analysis) name ctx 0 of
        Inl e \<Rightarrow> Inl e
      | Inr score \<Rightarrow>
          Inr (if job_role_type job_analysis = ''technical_it''
               then score
                 + (if \<exists>term \<in> set [''network'', ''security'', ''system'', ''server'', ''administration''].
                         py_in term name then 7 / 10 else 0)
                 + (if \<exists>term \<in> set [''active directory'', ''powershell'', ''windows'', ''linux''].
                         py_in term name then 6 / 10 else 0)
                 + (if py_in ''technical support'' name then 4 / 10 else 0)
               else score))"

definition direct_matches :: "string list \<Rightarrow> string \<Rightarrow> string \<Rightarrow> rat \<Rightarrow> rat" where
  "direct_matches wanted name ctx points =
     sum_list (map (\<lambda>skill. if py_in skill name \<or> py_in skill ctx then points else 0) wanted)"

definition score_skill_relevance :: "SkillMemory \<Rightarrow> job_analysis \<Rightarrow> py_error + rat" where
  "score_skill_relevance skill_data job_analysis =
     (let name = lower (skill_name skill_data);
          ctx = lower (skill_context skill_data);
          score = direct_matches (required_skills job_analysis) name ctx (8 / 10)
                + direct_matches (preferred_skills job_analysis) name ctx (5 / 10)
      in if primary_focus job_analysis = ''business'' then
           (case score_business_skill name ctx job_analysis of
              Inl e \<Rightarrow> Inl e | Inr b \<Rightarrow> Inr (min (score + b) 1))
         else if primary_focus job_analysis = ''technical'' then
           (case score_technical_skill name ctx job_analysis of
              Inl e \<Rightarrow> Inl e | Inr t \<Rightarrow> Inr (min (score + t) 1))
         else
           (case score_business_skill name ctx job_analysis of
              Inl e \<Rightarrow> Inl e
            | Inr b \<Rightarrow>
                (case score_technical_skill name ctx job_analysis of
                   Inl e \<Rightarrow> Inl e
                 | Inr t \<Rightarrow> Inr (min (score + b * (6 / 10) + t * (6 / 10)) 1))))"

definition score_style_relevance :: "StyleMemory \<Rightarrow> job_analysis \<Rightarrow> rat" where
  \<comment> \<open>the first test is membership in the list of responsibility clauses\<close>
  "score_style_relevance style_data job_analysis =
     (let rule_lower = lower (rule style_data)
      in if (\<exists>term \<in> set [''communicate'', ''present'', ''write'', ''document''].
               term \<in> set (key_responsibilities job_analysis)) \<and>
            (\<exists>term \<in> set [''tone'', ''communication'', ''writing'']. py_in term rule_lower)
         then 9 / 10 else 7 / 10)"

section \<open>Selection\<close>

definition py_take :: "int \<Rightarrow> 'a list \<Rightarrow> 'a list" where
  \<comment> \<open>the slice \<^verbatim>\<open>xs[:n]\<close>\<close>
  "py_take n xs = (if n \<ge> 0 then take (nat n) xs else take (length xs - nat (- n)) xs)"

definition sort_by_relevance :: "('a \<times> rat) list \<Rightarrow> ('a \<times> rat) list" where
  \<comment> \<open>\<^verbatim>\<open>sort(key=lambda x: x[1], reverse=True)\<close>: stable, largest score first\<close>
  "sort_by_relevance xs = sort_key (\<lambda>x. - snd x) xs"

fun score_skills :: "job_analysis \<Rightarrow> (string \<times> SkillMemory) list \<Rightarrow> py_error + (SkillMemory \<times> rat) list" where
  "score_skills job_analysis [] = Inr []"
| "score_skills job_analysis ((skill_key, skill_data) # items) =
     (case score_skill_relevance skill_data job_analysis of
        Inl e \<Rightarrow> Inl e
      | Inr relevance_score \<Rightarrow>
          (case score_skills job_analysis items of
             Inl e \<Rightarrow> Inl e
           | Inr scored \<Rightarrow>
               Inr (if relevance_score > 1 / 10 then (skill_data, relevance_score) # scored
                    else scored)))"

definition score_styles :: "job_analysis \<Rightarrow> StyleMemory list \<Rightarrow> (StyleMemory \<times> rat) list" where
  \<comment> \<open>the inner loop over the preferences of one category\<close>
  "score_styles job_analysis prefs =
     filter (\<lambda>(pref, relevance_score). relevance_score > 5 / 10)
       (map (\<lambda>pref. (pref, score_style_relevance pref job_analysis)) prefs)"

definition collect_styles ::
  "job_analysis \<Rightarrow> (string \<times> StyleMemory list) list \<Rightarrow> (string \<times> (StyleMemory \<times> rat) list) list" where
  \<comment> \<open>\<open>relevant_styles\<close> after the loop over the categories: a \<^verbatim>\<open>defaultdict(list)\<close>,
      which gets a key at the first append\<close>
  "collect_styles job_analysis style_prefs =
     fold (\<lambda>(category, prefs) acc.
             (let scored = score_styles job_analysis prefs
              in if scored = [] then acc
                 else AList.update category
                        ((case map_of acc category of None \<Rightarrow> [] | Some l \<Rightarrow> l) @ scored) acc))
       style_prefs []"

text \<open>
  The dictionary that \<^verbatim>\<open>get_relevant_memories\<close> returns; its entries
  \<^verbatim>\<open>temporal_events\<close> and \<^verbatim>\<open>job_analysis\<close> are \<open>rm_temporal_events\<close> and
  \<open>rm_job_analysis\<close>.
\<close>

record relevant_memories =
  relevant_skills :: "SkillMemory list"
  skill_scores :: "(string \<times> rat) list"
  relevant_styles :: "(string \<times> StyleMemory list) list"
  rm_temporal_events :: "TemporalMemory list"
  rm_job_analysis :: job_analysis

definition get_relevant_memories ::
  "MemoryCore \<Rightarrow> string \<Rightarrow> int \<Rightarrow> int \<Rightarrow> py_error + relevant_memories" where
  "get_relevant_memories memory_core job_description max_skills max_styles =
     (let job_analysis = analyze_job_requirements job_description
      in (case score_skills job_analysis (get_current_skills memory_core) of
            Inl e \<Rightarrow> Inl e
          | Inr scored_skills \<Rightarrow>
              (let top_skills = py_take max_skills (sort_by_relevance scored_skills);
                   styles = map (\<lambda>(category, scored).
                              (category, map fst (py_take max_styles (sort_by_relevance scored))))
                            (collect_styles job_analysis (get_style_preferences memory_core))
               in Inr \<lparr>relevant_skills = map fst top_skills,
                        skill_scores = fold (\<lambda>(skill, score). AList.update (skill_name skill) score)
                                         top_skills [],
                        relevant_styles = styles,
                        rm_temporal_events = get_current_temporal_events memory_core,
                        rm_job_analysis = job_analysis\<rparr>)))"

section \<open>The advanced relevance engine\<close>

text \<open>
  The tables of \<^verbatim>\<open>IndustryClassifier\<close>, \<^verbatim>\<open>SemanticMatcher\<close> and
  \<^verbatim>\<open>AdvancedRelevanceEngine\<close>. An industry is given with its keywords, its context
  indicators and its technology stack; a domain with its keywords, its weight and its
  industry boosts; a role type with its patterns, its weight and its complexity indicators.
  The domain and role tables of this engine are named \<open>adv_\<close> to keep them apart from
  those of the first engine.
\<close>

definition industry_patterns :: "(string \<times> string list \<times> string list \<times> string list) list" where
  "industry_patterns =
     [(''healthcare'',
        [''healthcare'', ''medical'', ''hospital'', ''clinic'', ''patient'', ''hipaa'',
         ''epic'', ''cerner''],
        [''patient care'', ''medical records'', ''clinical'', ''pharmaceutical''],
        [''epic'', ''cerner'', ''meditech'', ''allscripts'']),
      (''finance'',
        [''finance'', ''banking'', ''financial'', ''investment'', ''trading'', ''risk'',
         ''compliance''],
        [''financial analysis'', ''risk management'', ''regulatory'', ''trading systems''],
        [''bloomberg'', ''reuters'', ''murex'', ''calypso'', ''sap'', ''oracle financials'']),
      (''technology'',
        [''software'', ''development'', ''engineering'', ''tech'', ''startup'', ''saas'',
         ''platform''],
        [''software development'', ''cloud'', ''agile'', ''devops'', ''microservices''],
        [''aws'', ''azure'', ''kubernetes'', ''docker'', ''react'', ''python'']),
      (''manufacturing'',
        [''manufacturing'', ''production'', ''factory'', ''industrial'', ''supply chain'',
         ''quality''],
        [''production line'', ''inventory'', ''lean manufacturing'', ''six sigma''],
        [''sap'', ''oracle'', ''mes'', ''scada'', ''plm'']),
      (''education'',
        [''education'', ''university'', ''school'', ''academic'', ''research'', ''student''],
        [''curriculum'', ''learning'', ''research'', ''academic''],
        [''canvas'', ''blackboard'', ''moodle'', ''peoplesoft'']),
      (''retail'',
        [''retail'', ''ecommerce'', ''customer'', ''sales'', ''marketing'', ''brand''],
        [''customer experience'', ''point of sale'', ''inventory'', ''merchandising''],
        [''salesforce'', ''shopify'', ''sap retail'', ''oracle retail''])]"

definition semantic_clusters :: "(string \<times> string list) list" where
  "semantic_clusters =
    [(''database_management'',
        [''database'', ''sql'', ''mysql'', ''postgresql'', ''oracle'', ''mongodb'',
         ''data management'', ''database administration'', ''dba'', ''query optimization'']),
      (''network_administration'',
        [''network'', ''networking'', ''tcp/ip'', ''dns'', ''dhcp'', ''vpn'', ''firewall'',
         ''network security'', ''lan'', ''wan'', ''routing'', ''switching'']),
      (''system_administration'',
        [''system admin'', ''server management'', ''linux'', ''windows'', ''unix'',
         ''server administration'', ''infrastructure'', ''system maintenance'']),
      (''cloud_technologies'',
        [''cloud'', ''aws'', ''azure'', ''gcp'', ''cloud computing'', ''saas'', ''paas'',
         ''iaas'', ''cloud architecture'', ''cloud migration'', ''serverless'']),
      (''business_analysis'',
        [''business analyst'', ''requirements gathering'', ''process improvement'',
         ''business requirements'', ''stakeholder management'', ''gap analysis'']),
      (''project_management'',
        [''project management'', ''project manager'', ''scrum'', ''agile'', ''kanban'',
         ''project coordination'', ''timeline management'', ''resource planning'']),
      (''data_analysis'',
        [''data analysis'', ''analytics'', ''reporting'', ''business intelligence'',
         ''data visualization'', ''excel'', ''pivot tables'', ''dashboards''])]"

definition synonyms :: "(string \<times> string) list" where
  "synonyms =
     [(''sys admin'', ''system administrator''),
      (''sysadmin'', ''system administrator''),
      (''net admin'', ''network administrator''),
      (''dba'', ''database administrator''),
      (''pm'', ''project manager''),
      (''ba'', ''business analyst''),
      (''dev'', ''developer''),
      (''qa'', ''quality assurance'')]"

definition adv_tech_domains :: "(string \<times> string list \<times> rat \<times> (string \<times> rat) list) list" where
  "adv_tech_domains =
     [(''databases'',
        [''sql'', ''mysql'', ''postgresql'', ''oracle'', ''mongodb'', ''nosql'',
         ''database'', ''db'', ''data'', ''query''],
        1, [(''finance'', 3 / 2), (''healthcare'', 13 / 10), (''retail'', 6 / 5)]),
      (''programming'',
        [''python'', ''java'', ''c++'', ''javascript'', ''nodejs'', ''php'', ''ruby'',
         ''go'', ''rust'', ''.net''],
        6 / 5, [(''technology'', 9 / 5), (''finance'', 13 / 10)]),
      (''web'',
        [''html'', ''css'', ''react'', ''angular'', ''vue'', ''frontend'', ''backend'',
         ''web'', ''http'', ''api'', ''rest''],
        11 / 10, [(''technology'', 8 / 5), (''retail'', 7 / 5)]),
      (''cloud'',
        [''aws'', ''azure'', ''gcp'', ''cloud'', ''docker'', ''kubernetes'', ''serverless'',
         ''microservices''],
        13 / 10, [(''technology'', 17 / 10), (''finance'', 7 / 5)]),
      (''networking'',
        [''network'', ''tcp'', ''ip'', ''dns'', ''firewall'', ''vpn'', ''router'',
         ''switch'', ''security''],
        6 / 5, [(''technology'', 3 / 2), (''healthcare'', 13 / 10)]),
      (''systems'',
        [''linux'', ''windows'', ''unix'', ''server'', ''admin'', ''infrastructure'',
         ''deployment''],
        11 / 10, [(''technology'', 7 / 5), (''manufacturing'', 13 / 10)]),
      (''security'',
        [''security'', ''cybersecurity'', ''encryption'', ''authentication'',
         ''authorization'', ''compliance''],
        7 / 5, [(''finance'', 9 / 5), (''healthcare'', 8 / 5)]),
      (''automation'',
        [''automation'', ''scripting'', ''powershell'', ''bash'', ''workflow'', ''ci/cd'',
         ''devops''],
        6 / 5, [(''technology'', 8 / 5), (''manufacturing'', 7 / 5)])]"

definition adv_business_domains :: "(string \<times> string list \<times> rat \<times> (string \<times> rat) list) list" where
  "adv_business_domains =
     [(''business_analysis'',
        [''business analyst'', ''requirements'', ''process improvement'', ''workflow'',
         ''documentation''],
        1, [(''finance'', 7 / 5), (''healthcare'', 13 / 10)]),
      (''finance'',
        [''finance'', ''financial'', ''accounting'', ''order to cash'', ''collections'',
         ''credit''],
        11 / 10, [(''finance'', 9 / 5), (''manufacturing'', 6 / 5)]),
      (''project_management'',
        [''project management'', ''scrum'', ''agile'', ''stakeholder management'',
         ''timeline''],
        6 / 5, [(''technology'', 3 / 2), (''manufacturing'', 7 / 5)]),
      (''business_intelligence'',
        [''business intelligence'', ''bi'', ''power bi'', ''tableau'',
         ''data visualization'', ''dashboard''],
        13 / 10, [(''finance'', 8 / 5), (''retail'', 7 / 5)])]"

definition adv_role_types :: "(string \<times> string list \<times> rat \<times> string list) list" where
  "adv_role_types =
     [(''technical_it'',
        [''technician'', ''engineer'', ''developer'', ''administrator'',
         ''support specialist'', ''network'', ''system admin'', ''security analyst'',
         ''devops'', ''infrastructure''],
        1, [''senior'', ''lead'', ''principal'', ''architect'']),
      (''business_analyst'',
        [''business analyst'', ''process analyst'', ''functional analyst'',
         ''systems analyst''],
        1, [''senior'', ''lead'', ''principal'']),
      (''management'',
        [''manager'', ''director'', ''supervisor'', ''team lead'', ''department head''],
        1, [''senior'', ''executive'', ''vice president'', ''c-level''])]"

definition large_company_indicators :: "string list" where
  "large_company_indicators =
    [''enterprise'', ''fortune 500'', ''global'', ''multinational'', ''corporation'',
     ''thousands of employees'', ''worldwide'', ''international'']"

definition small_company_indicators :: "string list" where
  "small_company_indicators =
    [''startup'', ''small business'', ''growing company'', ''entrepreneurial'',
     ''close-knit team'', ''wear many hats'', ''fast-paced'']"

definition senior_indicators :: "string list" where
  "senior_indicators =
    [''senior'', ''lead'', ''principal'', ''architect'', ''5+ years'', ''7+ years'']"

definition junior_indicators :: "string list" where
  "junior_indicators =
    [''junior'', ''entry'', ''associate'', ''0-2 years'', ''recent graduate'']"

definition complex_responsibilities :: "string list" where
  "complex_responsibilities =
    [''architect'', ''design'', ''lead'', ''mentor'', ''strategy'', ''planning'',
     ''cross-functional'', ''stakeholder management'']"

definition high_comp_indicators :: "string list" where
  "high_comp_indicators =
    [''competitive salary'', ''excellent benefits'', ''equity'', ''stock options'',
     ''bonus'', ''401k'', ''health insurance'', ''remote work'']"

definition growth_indicators :: "string list" where
  "growth_indicators =
    [''career growth'', ''advancement'', ''mentorship'', ''learning'', ''development'',
     ''training'', ''certification'', ''conference'', ''education'']"

definition remote_indicators :: "string list" where
  "remote_indicators =
    [''remote'', ''work from home'', ''distributed team'', ''flexible location'',
     ''telecommute'', ''virtual'', ''anywhere'']"

definition soft_skill_patterns :: "string list" where
  "soft_skill_patterns =
    [''communication'', ''leadership'', ''teamwork'', ''problem.solving'', ''analytical'',
     ''detail.oriented'', ''time.management'', ''adaptability'']"

definition adv_technical_only_terms :: "string list" where
  "adv_technical_only_terms =
    [''network security'', ''server administration'', ''hardware troubleshooting'']"

subsection \<open>The semantic matcher\<close>

definition find_cluster :: "string \<Rightarrow> string option" where
  "find_cluster term =
     map_option fst
       (find (\<lambda>(cluster_name, terms).
                \<exists>cluster_term \<in> set terms. py_in cluster_term term \<or> py_in term cluster_term)
          semantic_clusters)"

definition synonym_of :: "string \<Rightarrow> string" where
  \<comment> \<open>\<^verbatim>\<open>self.synonyms.get(term, term)\<close>\<close>
  "synonym_of term = (case map_of synonyms term of None \<Rightarrow> term | Some normal \<Rightarrow> normal)"

definition calculate_semantic_similarity :: "string \<Rightarrow> string \<Rightarrow> rat" where
  "calculate_semantic_similarity skill requirement =
     (let skill_lower = strip (lower skill);
          requirement_lower = strip (lower requirement)
      in if skill_lower = requirement_lower then 1
         else if synonym_of skill_lower = synonym_of requirement_lower then 95 / 100
         else if py_in skill_lower requirement_lower \<or> py_in requirement_lower skill_lower
           then 8 / 10
         else (let skill_cluster = find_cluster skill_lower;
                   requirement_cluster = find_cluster requirement_lower
               in if skill_cluster \<noteq> None \<and> requirement_cluster \<noteq> None \<and>
                     skill_cluster = requirement_cluster then 7 / 10
                  else (let skill_tokens = remdups (findall_words skill_lower);
                            requirement_tokens = remdups (findall_words requirement_lower)
                        in if skill_tokens \<noteq> [] \<and> requirement_tokens \<noteq> [] then
                             (let overlap = length (filter (\<lambda>t. t \<in> set requirement_tokens) skill_tokens);
                                  union = length (remdups (skill_tokens @ requirement_tokens));
                                  jaccard_similarity =
                                    (if union > 0 then of_nat overlap / of_nat union else 0)
                              in if jaccard_similarity > 3 / 10
                                 then jaccard_similarity * (6 / 10) else 0)
                           else 0)))"

text \<open>
  The specification gives 0.7 to two terms of one predefined topic cluster. Read on the
  table alone, two terms share a cluster when one list of the table has both as entries;
  the predicate is stated to be compared with what \<open>find_cluster\<close> answers.
\<close>

definition spec_shared_cluster :: "string \<Rightarrow> string \<Rightarrow> bool" where
  "spec_shared_cluster a b =
     list_ex (\<lambda>(cluster_name, terms). a \<in> set terms \<and> b \<in> set terms) semantic_clusters"

definition listed_terms :: "(string \<times> string) list" where
  \<comment> \<open>every entry of the table, with the name of its cluster\<close>
  "listed_terms =
     concat (map (\<lambda>(cluster_name, terms). map (Pair cluster_name) terms) semantic_clusters)"

subsection \<open>The analysis of a job description\<close>

record industry_analysis =
  industry :: string
  ic_confidence :: rat
  all_scores :: "(string \<times> nat) list"
  indicators :: "string list"

definition industry_score ::
  "nat \<Rightarrow> string \<Rightarrow> string list \<times> string list \<times> string list \<Rightarrow> py_error + nat" where
  "industry_score minor job_lower patterns =
     (case patterns of (keywords, context_indicators, tech_stack) \<Rightarrow>
        raise_bind
          (raise_map (\<lambda>keyword.
               raise_bind (count_keyword_on minor keyword job_lower) (\<lambda>count. Inr (count * 2)))
             keywords)
          (\<lambda>scores.
             Inr (sum_list scores +
                  sum_list (map (\<lambda>indicator. if py_in indicator job_lower then 3 else 0)
                              context_indicators) +
                  sum_list (map (\<lambda>tech. if py_in tech job_lower then 4 else 0) tech_stack))))"

definition get_matching_indicators :: "string \<Rightarrow> string \<Rightarrow> string list" where
  "get_matching_indicators job_text ind =
     (case map_of industry_patterns ind of
        None \<Rightarrow> []
      | Some (keywords, context_indicators, tech_stack) \<Rightarrow>
          map (\<lambda>keyword. ''keyword: '' @ keyword) (filter (\<lambda>keyword. py_in keyword job_text) keywords) @
          map (\<lambda>ctx. ''context: '' @ ctx) (filter (\<lambda>ctx. py_in ctx job_text) context_indicators) @
          map (\<lambda>tech. ''technology: '' @ tech) (filter (\<lambda>tech. py_in tech job_text) tech_stack))"

definition classify_industry :: "nat \<Rightarrow> string \<Rightarrow> py_error + industry_analysis" where
  \<comment> \<open>the dictionary of the general case has no entry \<^verbatim>\<open>all_scores\<close>\<close>
  "classify_industry minor job_description =
     (let job_lower = lower job_description
      in raise_bind
           (raise_map (\<lambda>(ind, patterns).
                raise_bind (industry_score minor job_lower patterns) (\<lambda>score. Inr (ind, score)))
              industry_patterns)
           (\<lambda>scores.
              (let industry_scores = filter (\<lambda>(ind, score). score > 0) scores
               in Inr (case industry_scores of
                    [] \<Rightarrow>
                      \<lparr>industry = ''general'', ic_confidence = 1 / 2, all_scores = [],
                       indicators = []\<rparr>
                  | s # rest \<Rightarrow>
                      (let primary_industry = fst (first_max s rest);
                           max_score = snd (first_max s rest);
                           total_score = sum_list (map snd industry_scores);
                           confidence =
                             (if total_score > 0 then of_nat max_score / of_nat total_score
                              else 1 / 2)
                       in \<lparr>industry = primary_industry, ic_confidence = confidence,
                            all_scores = industry_scores,
                            indicators = get_matching_indicators job_lower primary_industry\<rparr>)))))"

definition adv_role_score ::
  "nat \<Rightarrow> string \<Rightarrow> string list \<times> rat \<times> string list \<Rightarrow> py_error + nat" where
  "adv_role_score minor job_text config =
     (case config of (patterns, weight, complexity_indicators) \<Rightarrow>
        raise_bind
          (raise_map (\<lambda>pattern.
               raise_bind (count_keyword_on minor pattern job_text)
                 (\<lambda>matches. Inr (matches + (if py_in pattern (take 200 job_text) then 3 else 0))))
             patterns)
          (\<lambda>scores.
             Inr (sum_list scores +
                  sum_list (map (\<lambda>indicator. if py_in indicator job_text then 2 else 0)
                              complexity_indicators))))"

definition classify_role_advanced ::
  "nat \<Rightarrow> string \<Rightarrow> py_error + string \<times> rat \<times> (string \<times> nat) list" where
  \<comment> \<open>the role type, the confidence and the scores\<close>
  "classify_role_advanced minor job_text =
     raise_bind
       (raise_map (\<lambda>(role_type, config).
            raise_bind (adv_role_score minor job_text config) (\<lambda>score. Inr (role_type, score)))
          adv_role_types)
       (\<lambda>scores.
          (let role_scores = filter (\<lambda>(role_type, score). score > 0) scores
           in Inr (case role_scores of
                [] \<Rightarrow> (''unknown'', 0, [])
              | s # rest \<Rightarrow>
                  (let max_score = snd (first_max s rest);
                       total_score = sum_list (map snd role_scores);
                       confidence =
                         (if total_score > 0 then of_nat max_score / of_nat total_score else 0)
                   in (fst (first_max s rest), confidence, role_scores)))))"

text \<open>
  The patterns of \<^verbatim>\<open>_extract_skills_advanced\<close>. The clauses stop at a dot, an exclamation
  mark or a question mark. A technology pattern is an alternation of names between word
  boundaries; a name is made of letters, so a match is a whole run of word characters.
  These patterns compile on every version; the patterns of the soft skills are compiled
  like the keywords.
\<close>

definition adv_responsibility_patterns :: "intro_pattern list" where
  "adv_responsibility_patterns =
     [(''responsibilitie'', ''s:''), (''duties'', '':''), (''you will'', '':''),
      (''the role involves'', '':'')]"

definition tech_patterns :: "string list list" where
  "tech_patterns =
     [[''java'', ''python'', ''javascript'', ''sql'', ''aws'', ''azure'', ''linux'', ''windows'',
       ''oracle'', ''mysql''],
      [''react'', ''angular'', ''vue'', ''docker'', ''kubernetes'', ''git'', ''jenkins'']]"

definition is_sentence_end :: "char \<Rightarrow> bool" where
  "is_sentence_end c = (c = CHR ''.'' \<or> c = CHR ''!'' \<or> c = CHR ''?'')"

fun search_atoms :: "atom list \<Rightarrow> string \<Rightarrow> bool" where
  \<comment> \<open>\<^verbatim>\<open>re.search\<close> of a pattern without anchors\<close>
  "search_atoms p [] = (match_atoms p [] \<noteq> None)"
| "search_atoms p (c # cs) = (match_atoms p (c # cs) \<noteq> None \<or> search_atoms p cs)"

definition extract_skills_advanced ::
  "nat \<Rightarrow> string \<Rightarrow>
     py_error + string list \<times> string list \<times> string list \<times> string list \<times> string list" where
  \<comment> \<open>required, preferred, technologies, soft skills, responsibilities\<close>
  "extract_skills_advanced minor job_text =
     (let clauses = (\<lambda>patterns. concat (map (\<lambda>pattern.
            map strip (findall_clause pattern is_sentence_end job_text)) patterns));
          technologies = concat (map (\<lambda>names.
            filter (\<lambda>word. word \<in> set names) (findall_words job_text)) tech_patterns)
      in raise_bind
           (raise_map (\<lambda>pattern.
                raise_bind (re_compile minor pattern)
                  (\<lambda>p. Inr (if search_atoms p job_text
                             then [replace_char CHR ''.'' CHR '' '' pattern] else [])))
              soft_skill_patterns)
           (\<lambda>soft_skills.
              Inr (clauses required_patterns, clauses preferred_patterns, remdups technologies,
                   concat soft_skills, clauses adv_responsibility_patterns)))"

definition count_present :: "string list \<Rightarrow> string \<Rightarrow> nat" where
  \<comment> \<open>\<^verbatim>\<open>sum(1 for indicator in indicators if indicator in job_text)\<close>\<close>
  "count_present inds job_text = length (filter (\<lambda>indicator. py_in indicator job_text) inds)"

definition analyze_company_context :: "string \<Rightarrow> string \<times> nat \<times> nat" where
  "analyze_company_context job_text =
     (let large_score = count_present large_company_indicators job_text;
          small_score = count_present small_company_indicators job_text
      in (if large_score > small_score then ''large''
          else if small_score > large_score then ''small'' else ''medium'',
          large_score, small_score))"

definition analyze_experience_requirements :: "string \<Rightarrow> string \<times> rat \<times> nat \<times> nat" where
  \<comment> \<open>level, complexity, senior indicators, junior indicators\<close>
  "analyze_experience_requirements job_text =
     (let senior_score = count_present senior_indicators job_text;
          junior_score = count_present junior_indicators job_text;
          experience_level =
            (if senior_score > junior_score then ''senior''
             else if junior_score > senior_score then ''junior'' else ''mid'');
          complexity0 =
            (if senior_score > junior_score then 8 / 10
             else if junior_score > senior_score then 3 / 10 else 5 / 10);
          complexity_boost =
            sum_list (map (\<lambda>resp. if py_in resp job_text then 1 / 10 else 0)
              complex_responsibilities)
      in (experience_level, min 1 (complexity0 + complexity_boost), senior_score, junior_score))"

definition analyze_career_indicators :: "string \<Rightarrow> (nat \<times> bool) \<times> rat \<times> string list" where
  \<comment> \<open>compensation (indicators, likely competitive), growth potential, remote indicators\<close>
  "analyze_career_indicators job_text =
     (let comp_score = count_present high_comp_indicators job_text;
          growth_score = count_present growth_indicators job_text
      in ((comp_score, comp_score \<ge> 3), min 1 (of_nat growth_score / 5),
          filter (\<lambda>indicator. py_in indicator job_text) remote_indicators))"

definition score_domains_advanced ::
  "nat \<Rightarrow> string \<Rightarrow> (string \<times> string list \<times> rat \<times> (string \<times> rat) list) list \<Rightarrow>
     industry_analysis \<Rightarrow> py_error + (string \<times> rat) list" where
  "score_domains_advanced minor job_text domains ia =
     raise_bind
       (raise_map (\<lambda>(domain, keywords, weight, industry_boost).
            raise_bind
              (raise_map (\<lambda>keyword.
                   raise_bind (count_keyword_on minor keyword job_text)
                     (\<lambda>count. Inr (of_nat count * weight)))
                 keywords)
              (\<lambda>scores.
                 (let score = sum_list scores
                  in Inr (domain,
                       (case map_of industry_boost (industry ia) of
                          None \<Rightarrow> score
                        | Some boost \<Rightarrow> score * boost)))))
          domains)
       (\<lambda>domain_scores. Inr (filter (\<lambda>(domain, score). score > 0) domain_scores))"

text \<open>The fields of \<^verbatim>\<open>JobAnalysisResult\<close>, with the prefix \<open>res_\<close>.\<close>

record JobAnalysisResult =
  res_job_role_type :: string
  res_primary_focus :: string
  res_confidence_score :: rat
  res_required_skills :: "string list"
  res_preferred_skills :: "string list"
  res_tech_domains :: "(string \<times> rat) list"
  res_business_domains :: "(string \<times> rat) list"
  res_industry_context :: industry_analysis
  res_experience_level :: string
  res_company_size :: string
  res_role_complexity :: rat
  res_explicit_technologies :: "string list"
  res_soft_skills :: "string list"
  res_key_responsibilities :: "string list"
  res_compensation_indicators :: "nat \<times> bool"
  res_growth_potential :: rat
  res_remote_work_indicators :: "string list"

definition analyze_job_comprehensive_body :: "nat \<Rightarrow> py_str \<Rightarrow> py_error + JobAnalysisResult" where
  \<comment> \<open>the body of the method, on a description that is not in \<^verbatim>\<open>analysis_cache\<close>; the
      bytes of the description only make the key of that cache\<close>
  "analyze_job_comprehensive_body minor job_description =
     raise_bind (encode job_description) (\<lambda>cache_key.
     (let job_lower = lower (characters job_description)
      in raise_bind (classify_industry minor (characters job_description)) (\<lambda>ia.
         raise_bind (classify_role_advanced minor job_lower) (\<lambda>role_analysis.
         raise_bind (extract_skills_advanced minor job_lower) (\<lambda>skills_analysis.
         (let company_analysis = analyze_company_context job_lower;
              experience_analysis = analyze_experience_requirements job_lower;
              career_analysis = analyze_career_indicators job_lower
          in raise_bind (score_domains_advanced minor job_lower adv_tech_domains ia) (\<lambda>tech.
             raise_bind (score_domains_advanced minor job_lower adv_business_domains ia)
               (\<lambda>business.
             (let tech_score = sum_list (map snd tech);
                  business_score = sum_list (map snd business);
                  focus =
                    (if fst role_analysis \<in> set [''business_analyst'', ''management'']
                     then ''business''
                     else if fst role_analysis = ''technical_it'' then ''technical''
                     else if business_score > tech_score then ''business'' else ''technical'')
              in (case skills_analysis of
                    (required, preferred, technologies, soft, responsibilities) \<Rightarrow>
                    Inr \<lparr>res_job_role_type = fst role_analysis,
                         res_primary_focus = focus,
                         res_confidence_score = fst (snd role_analysis),
                         res_required_skills = required,
                         res_preferred_skills = preferred,
                         res_tech_domains = tech,
                         res_business_domains = business,
                         res_industry_context = ia,
                         res_experience_level = fst experience_analysis,
                         res_company_size = fst company_analysis,
                         res_role_complexity = fst (snd experience_analysis),
                         res_explicit_technologies = technologies,
                         res_soft_skills = soft,
                         res_key_responsibilities = responsibilities,
                         res_compensation_indicators = fst career_analysis,
                         res_growth_potential = fst (snd career_analysis),
                         res_remote_work_indicators = snd (snd career_analysis)\<rparr>))))))))))"

subsection \<open>The two decorators of the analyser\<close>

text \<open>
  \<^verbatim>\<open>analyze_job_comprehensive\<close> is wrapped by \<^verbatim>\<open>with_error_handling\<close> of
  \<^verbatim>\<open>error_handler.py\<close> and, around that, by \<^verbatim>\<open>performance_monitor\<close> of
  \<^verbatim>\<open>performance_monitor.py\<close>.

  The error handler looks up the rule of the exception: the rule of its class, or else of
  the first class of the table of rules that it descends from (the decoding and encoding
  errors descend from \<open>ValueError\<close>, \<^verbatim>\<open>re.error\<close> from \<open>Exception\<close> only). A rule names a
  strategy, and the strategy \<open>FALLBACK\<close> a fallback action. The strategies \<open>RETRY\<close> and
  \<open>HALT\<close> belong to exceptions that are not of this development. The values that a
  recovery can hand back are data of Python, \<open>py_value\<close>.
\<close>

datatype py_value =
    PyDict "(string \<times> py_value) list"
  | PyList "py_value list"
  | PyStr string
  | PyInt int
  | PyFloat rat
  | PyBool bool

datatype fallback_action = use_defaults | use_default_value | graceful_degradation

datatype recovery_strategy = FALLBACK fallback_action | SKIP | USER_INPUT

definition get_error_rule :: "py_error \<Rightarrow> recovery_strategy" where
  "get_error_rule error =
     (case error of
        FileNotFoundError \<Rightarrow> FALLBACK use_defaults
      | PermissionError \<Rightarrow> USER_INPUT
      | JSONDecodeError \<Rightarrow> SKIP
      | UnicodeDecodeError \<Rightarrow> SKIP
      | UnicodeEncodeError \<Rightarrow> SKIP
      | KeyError k \<Rightarrow> FALLBACK use_default_value
      | ReError \<Rightarrow> FALLBACK graceful_degradation)"

definition get_default_configuration :: "string \<Rightarrow> py_value" where
  "get_default_configuration component =
     (case map_of
        [(''openai_client'',
            PyDict [(''max_tokens'', PyInt 1000), (''temperature'', PyFloat (7 / 10)),
                    (''timeout'', PyInt 30)]),
         (''memory_core'',
            PyDict [(''max_skills'', PyInt 1000), (''relevance_threshold'', PyFloat (1 / 10))]),
         (''file_monitor'',
            PyDict [(''check_interval'', PyInt 60), (''auto_sync'', PyBool True)])]
        component of
        None \<Rightarrow> PyDict []
      | Some defaults \<Rightarrow> defaults)"

definition get_default_value :: "string \<Rightarrow> py_value option" where
  "get_default_value operation_name =
     (let operation = lower operation_name
      in if py_in ''skills'' operation then Some (PyList [])
         else if py_in ''text'' operation \<or> py_in ''content'' operation then Some (PyStr [])
         else if py_in ''count'' operation \<or> py_in ''score'' operation then Some (PyInt 0)
         else if py_in ''enabled'' operation \<or> py_in ''active'' operation then Some (PyBool False)
         else None)"

definition graceful_degradation_data :: "string \<Rightarrow> py_value" where
  \<comment> \<open>\<^verbatim>\<open>_graceful_degradation\<close>\<close>
  "graceful_degradation_data operation =
     PyDict [(''mode'', PyStr ''degraded''),
             (''features_disabled'', PyList [PyStr operation]),
             (''fallback_message'',
                PyStr (''Operating in degraded mode due to '' @ operation @ '' failure''))]"

text \<open>
  Of the dictionary that \<^verbatim>\<open>handle_error\<close> returns, the wrapper reads three keys:
  \<^verbatim>\<open>continue_execution\<close>, \<^verbatim>\<open>fallback_data\<close> and \<^verbatim>\<open>operation_skipped\<close>. The third is a
  key of the result of the recovery by skipping, which \<^verbatim>\<open>handle_error\<close> does not copy
  into its own dictionary: the wrapper never finds it, and what would return \<^verbatim>\<open>None\<close>
  for a skipped operation raises the exception again.
\<close>

record recovery_result =
  continue_execution :: bool
  fallback_data :: "py_value option"

definition fallback_recovery :: "fallback_action \<Rightarrow> string \<Rightarrow> string \<Rightarrow> recovery_result" where
  "fallback_recovery action component operation =
     \<lparr>continue_execution = True,
      fallback_data =
        (case action of
           use_defaults \<Rightarrow> Some (get_default_configuration component)
         | use_default_value \<Rightarrow> get_default_value operation
         | graceful_degradation \<Rightarrow> Some (graceful_degradation_data operation))\<rparr>"

definition handle_error :: "py_error \<Rightarrow> string \<Rightarrow> string \<Rightarrow> recovery_result" where
  "handle_error error component operation =
     (case get_error_rule error of
        FALLBACK action \<Rightarrow> fallback_recovery action component operation
      | SKIP \<Rightarrow> \<lparr>continue_execution = True, fallback_data = None\<rparr>
      | USER_INPUT \<Rightarrow> \<lparr>continue_execution = False, fallback_data = None\<rparr>)"

datatype 'a returned = Result 'a | Fallback py_value

definition with_error_handling ::
  "string \<Rightarrow> string \<Rightarrow> py_error + 'a \<Rightarrow> py_error + 'a returned" where
  \<comment> \<open>the wrapper around a call of the function, given what the call returns or raises\<close>
  "with_error_handling component operation call =
     (case call of
        Inr r \<Rightarrow> Inr (Result r)
      | Inl e \<Rightarrow>
          (let result = handle_error e component operation
           in if \<not> continue_execution result then Inl e
              else (case fallback_data result of
                      Some d \<Rightarrow> Inr (Fallback d)
                    | None \<Rightarrow> Inl e)))"

definition analyze_job_comprehensive ::
  "nat \<Rightarrow> py_str \<Rightarrow> py_error + JobAnalysisResult returned" where
  \<comment> \<open>the decorated method on a description that the cache of the performance monitor
      does not hold: the outer wrapper calls the inner one and hands on what it returns
      or raises\<close>
  "analyze_job_comprehensive minor job_description =
     with_error_handling ''relevance_engine'' ''analyze_job_comprehensive''
       (analyze_job_comprehensive_body minor job_description)"

subsection \<open>The comprehensive score of a skill\<close>

record SkillRelevanceScore =
  srs_skill_name :: string
  base_score :: rat
  domain_boost :: rat
  experience_alignment :: rat
  industry_relevance :: rat
  semantic_similarity :: rat
  final_score :: rat
  explanation :: string
  confidence :: rat

definition best_similarity :: "string \<Rightarrow> string list \<Rightarrow> rat \<Rightarrow> rat \<Rightarrow> rat" where
  \<comment> \<open>the loop \<^verbatim>\<open>best = max(best, similarity * factor)\<close> over the phrases\<close>
  "best_similarity name phrases factor start =
     fold (\<lambda>phrase best. max best (calculate_semantic_similarity name phrase * factor))
       phrases start"

definition adv_domain_boost ::
  "(string \<times> string list \<times> rat \<times> (string \<times> rat) list) list \<Rightarrow> (string \<times> rat) list
     \<Rightarrow> string \<Rightarrow> string \<Rightarrow> rat \<Rightarrow> rat" where
  \<comment> \<open>\<^verbatim>\<open>self.domains.get(domain, {})\<close> has no keywords for a domain that is not in the table\<close>
  "adv_domain_boost domains items name ctx divisor =
     sum_list (map (\<lambda>(domain, score).
       (case map_of domains domain of
          None \<Rightarrow> 0
        | Some (keywords, weight, industry_boost) \<Rightarrow>
            sum_list (map (\<lambda>keyword.
              if py_in keyword name \<or> py_in keyword ctx
              then min (score / divisor) (8 / 10) * weight else 0) keywords))) items)"

definition industry_boost_of ::
  "(string \<times> string list \<times> rat \<times> (string \<times> rat) list) list \<Rightarrow> string \<Rightarrow> string \<Rightarrow> rat" where
  \<comment> \<open>the \<^verbatim>\<open>break\<close> leaves the inner loop only: the last domain that applies decides\<close>
  "industry_boost_of domains ind name =
     fold (\<lambda>(domain, keywords, weight, industry_boost) relevance.
             (case map_of industry_boost ind of
                None \<Rightarrow> relevance
              | Some boost \<Rightarrow>
                  if \<exists>keyword \<in> set keywords. py_in keyword name
                  then (15 / 100) * (boost - 1) else relevance))
       domains 0"

definition join_with :: "string \<Rightarrow> string list \<Rightarrow> string" where
  \<comment> \<open>\<^verbatim>\<open>sep.join(parts)\<close>\<close>
  "join_with sep parts =
     (case parts of [] \<Rightarrow> [] | p # ps \<Rightarrow> p @ concat (map (\<lambda>q. sep @ q) ps))"

definition generate_score_explanation ::
  "string \<Rightarrow> rat \<Rightarrow> rat \<Rightarrow> rat \<Rightarrow> rat \<Rightarrow> rat \<Rightarrow> rat \<Rightarrow> JobAnalysisResult \<Rightarrow> string" where
  "generate_score_explanation name base boost alignment relevance similarity penalty job_analysis =
     (let explanations =
            (if base > 7 / 10 then [''Strong match with job requirements'']
             else if base > 4 / 10 then [''Moderate match with job requirements'']
             else if base > 1 / 10 then [''Weak match with job requirements''] else []) @
            (if boost > 5 / 10
               then [''High relevance to '' @ res_primary_focus job_analysis @ '' role'']
             else if boost > 2 / 10
               then [''Moderate relevance to '' @ res_primary_focus job_analysis @ '' role'']
             else []) @
            (if relevance > 1 / 10
               then [''Valuable for '' @ industry (res_industry_context job_analysis) @ '' industry'']
             else []) @
            (if similarity > 2 / 10 then [''Semantic similarity with mentioned technologies'']
             else []) @
            (if penalty > 0 then [''Some mismatch with role focus''] else [])
      in if explanations \<noteq> [] then join_with ''; '' explanations
         else ''Basic relevance assessment'')"

definition calculate_confidence :: "rat \<Rightarrow> rat \<Rightarrow> rat \<Rightarrow> rat" where
  "calculate_confidence base boost similarity =
     (if base > 8 / 10 then 95 / 100
      else if base > 5 / 10 \<or> boost > 6 / 10 then 8 / 10
      else if base > 2 / 10 \<or> boost > 3 / 10 \<or> similarity > 3 / 10 then 6 / 10
      else 4 / 10)"

definition score_skill_comprehensive :: "SkillMemory \<Rightarrow> JobAnalysisResult \<Rightarrow> SkillRelevanceScore" where
  "score_skill_comprehensive skill_data job_analysis =
     (let name = lower (skill_name skill_data);
          ctx = lower (skill_context skill_data);
          focus = res_primary_focus job_analysis;
          base = best_similarity name (map lower (res_preferred_skills job_analysis)) (6 / 10)
                   (best_similarity name (map lower (res_required_skills job_analysis)) (9 / 10) 0);
          boost =
            (if focus = ''technical''
               then adv_domain_boost adv_tech_domains (res_tech_domains job_analysis) name ctx 15
             else if focus = ''business''
               then adv_domain_boost adv_business_domains (res_business_domains job_analysis) name ctx 10
             else 0);
          alignment =
            (if res_experience_level job_analysis = ''senior'' \<and> py_in ''senior'' ctx then 2 / 10
             else if res_experience_level job_analysis = ''junior'' \<and>
                     (\<exists>term \<in> set [''basic'', ''entry'', ''beginner'']. py_in term ctx) then 1 / 10
             else if res_experience_level job_analysis = ''mid'' then 1 / 10
             else 0);
          ind = industry (res_industry_context job_analysis);
          relevance =
            (if ind \<noteq> ''general''
             then (if focus = ''technical'' then industry_boost_of adv_tech_domains ind name
                   else industry_boost_of adv_business_domains ind name)
             else 0);
          similarity = best_similarity name (res_explicit_technologies job_analysis) (3 / 10) 0;
          penalty =
            (if focus = ''business'' \<and> (\<exists>term \<in> set adv_technical_only_terms. py_in term name)
             then 4 / 10 else 0);
          final = max 0 (min 1 (base + boost + alignment + relevance + similarity - penalty))
      in \<lparr>srs_skill_name = skill_name skill_data,
          base_score = base,
          domain_boost = boost,
          experience_alignment = alignment,
          industry_relevance = relevance,
          semantic_similarity = similarity,
          final_score = final,
          explanation = generate_score_explanation name base boost alignment relevance
                          similarity penalty job_analysis,
          confidence = calculate_confidence base boost similarity\<rparr>)"

section \<open>Example stores\<close>

text \<open>
  A store of ten skills as the file monitor lists them, and a job description for which
  four of them score above the floor of the selection.
\<close>

definition listed_skill :: "string \<Rightarrow> SkillMemory" where
  "listed_skill name =
     \<lparr>skill_name = name, proficiency_level = ''Listed in skillset.csv'',
      skill_context = ''User-maintained skill list'', examples = [], last_updated = ''t1''\<rparr>"

definition store10 :: MemoryCore where
  "store10 =
     fold (\<lambda>name mc. add_skill_memory mc (listed_skill name) ''t1'')
       [''Painting'', ''MySQL'', ''Cooking'', ''Oracle database'', ''Gardening'',
        ''NoSQL MongoDB database'', ''Chess'', ''MySQL database'', ''Hiking'', ''Singing'']
       empty_core"

definition jd10 :: string where
  "jd10 = ''SQL''"

text \<open>
  A store with one event that starts three days after the sweep; the time line is counted
  from the moment of the sweep.
\<close>

definition soon_event :: TemporalMemory where
  "soon_event =
     example_event\<lparr>status :=
       calculate_event_status example_event (Some (timedelta_days 3)) None 0\<rparr>"

definition soon_core :: MemoryCore where
  "soon_core = add_temporal_event empty_core soon_event ''t1''"

definition scored10 :: "(SkillMemory \<times> rat) list" where
  "scored10 =
     [(listed_skill ''MySQL'', 2 / 10), (listed_skill ''Oracle database'', 3 / 10),
      (listed_skill ''NoSQL MongoDB database'', 6 / 10), (listed_skill ''MySQL database'', 4 / 10)]"

text \<open>
  An invariant of the analysis: every scored domain of a map is a domain of the table, and
  its score is not negative.
\<close>

definition domains_ok :: "(string \<times> string list) list \<Rightarrow> (string \<times> rat) list \<Rightarrow> bool" where
  "domains_ok domains items = list_all (\<lambda>(domain, w). map_of domains domain \<noteq> None \<and> 0 \<le> w) items"

section \<open>Evaluation of the character functions\<close>

text \<open>
  The character classes and the lower-casing read off the bits of a character; these
  equations are the ones used to evaluate the functions on given texts.
\<close>

lemma is_word_char_bits [code]:
  "is_word_char (Char b0 b1 b2 b3 b4 b5 b6 b7) =
     (if b7 then (if b6 then (\<not> b4 \<or> (b3 \<or> (\<not> b2 \<or> (\<not> b1
     \<or> \<not> b0)))) else (b5 \<and> (if b4 then (if b3 then (if b2 then (\<not> b1
     \<or> \<not> b0) else (if b1 then \<not> b0 else b0)) else (if b2 then (\<not> b1
     \<and> b0) else b1)) else (b3 \<and> (\<not> b2 \<and> (b1 \<and> \<not> b0))))))
     else (if b6 then (if b5 then (if b4 then (\<not> b3 \<or> (\<not> b2 \<and> (\<not>
     b1 \<or> \<not> b0))) else (b3 \<or> (b2 \<or> (b1 \<or> b0)))) else (if b4 then
     (\<not> b3 \<or> (if b2 then (b1 \<and> b0) else (\<not> b1 \<or> \<not> b0))) else
     (b3 \<or> (b2 \<or> (b1 \<or> b0))))) else (b5 \<and> (b4 \<and> (\<not> b3 \<or>
     (\<not> b2 \<and> \<not> b1))))))"
  by (cases b0; cases b1; cases b2; cases b3; cases b4; cases b5; cases b6; cases b7;
      simp add: is_word_char_def)

lemma is_space_bits [code]:
  "is_space (Char b0 b1 b2 b3 b4 b5 b6 b7) =
     (if b7 then (\<not> b6 \<and> (if b5 then (\<not> b4 \<and> (\<not> b3 \<and>
     (\<not> b2 \<and> (\<not> b1 \<and> \<not> b0)))) else (\<not> b4 \<and> (\<not> b3
     \<and> (b2 \<and> (\<not> b1 \<and> b0)))))) else (\<not> b6 \<and> (if b5 then
     (\<not> b4 \<and> (\<not> b3 \<and> (\<not> b2 \<and> (\<not> b1 \<and> \<not>
     b0)))) else (if b4 then (b3 \<and> b2) else (b3 \<and> (if b2 then \<not> b1 else
     (b1 \<or> b0)))))))"
  by (cases b0; cases b1; cases b2; cases b3; cases b4; cases b5; cases b6; cases b7;
      simp add: is_space_def)

lemma lower_char_bits [code]:
  "lower_char (Char b0 b1 b2 b3 b4 b5 b6 b7) =
     Char b0 b1 b2 b3 b4
       (b5 \<or> (if b7 then (b6 \<and> (\<not> b5 \<and> (\<not> b4 \<or> (\<not> b2
         \<or> (\<not> b1 \<or> \<not> b0))))) else (b6 \<and> (\<not> b5 \<and>
         (if b4 then (\<not> b3 \<or> (\<not> b2 \<and> (\<not> b1 \<or> \<not>
         b0))) else (b3 \<or> (b2 \<or> (b1 \<or> b0))))))))
       b6 b7"
  by (cases b0; cases b1; cases b2; cases b3; cases b4; cases b5; cases b6; cases b7;
      simp add: lower_char_def char_of_eq_iff)

section \<open>Properties of the temporal status\<close>

text \<open>
  Claim C3, as amended. With a known start date the status is \<open>upcoming\<close> more than
  seven days before the start, \<open>starting_soon\<close> in the seven days before it, and from the
  start on: \<open>current\<close> when there is no end date or the end date is not passed,
  \<open>recently_completed\<close> in the thirty days after the end date, \<open>completed\<close> later. The
  last two cases apply only once the start date is reached.
\<close>

theorem calculate_event_status_cases:
  "(now < s - timedelta_days 7 \<longrightarrow>
      calculate_event_status ev (Some s) e now = ''upcoming'') \<and>
   (s - timedelta_days 7 \<le> now \<and> now < s \<longrightarrow>
      calculate_event_status ev (Some s) e now = ''starting_soon'') \<and>
   (s \<le> now \<and> (e = None \<or> (\<exists>x. e = Some x \<and> now \<le> x)) \<longrightarrow>
      calculate_event_status ev (Some s) e now = ''current'') \<and>
   (s \<le> now \<and> (\<exists>x. e = Some x \<and> x < now \<and> now \<le> x + timedelta_days 30) \<longrightarrow>
      calculate_event_status ev (Some s) e now = ''recently_completed'') \<and>
   (s \<le> now \<and> (\<exists>x. e = Some x \<and> x + timedelta_days 30 < now) \<longrightarrow>
      calculate_event_status ev (Some s) e now = ''completed'')"
  by (cases e) (auto simp: calculate_event_status_def timedelta_days_def)

theorem calculate_event_status_cases_witness:
  "calculate_event_status example_event (Some (timedelta_days 40)) None 0 = ''upcoming'' \<and>
   calculate_event_status example_event (Some (timedelta_days 40)) None (timedelta_days 37) = ''starting_soon'' \<and>
   calculate_event_status example_event (Some (timedelta_days 40)) None (timedelta_days 41) = ''current'' \<and>
   calculate_event_status example_event (Some (timedelta_days 40)) (Some (timedelta_days 50)) (timedelta_days 60) = ''recently_completed'' \<and>
   calculate_event_status example_event (Some (timedelta_days 40)) (Some (timedelta_days 50)) (timedelta_days 90) = ''completed''"
  using calculate_event_status_cases [where now = 0 and s = "timedelta_days 40" and ev = example_event and e = None]
    calculate_event_status_cases [where now = "timedelta_days 37" and s = "timedelta_days 40" and ev = example_event and e = None]
    calculate_event_status_cases [where now = "timedelta_days 41" and s = "timedelta_days 40" and ev = example_event and e = None]
    calculate_event_status_cases [where now = "timedelta_days 60" and s = "timedelta_days 40" and ev = example_event and e = "Some (timedelta_days 50)"]
    calculate_event_status_cases [where now = "timedelta_days 90" and s = "timedelta_days 40" and ev = example_event and e = "Some (timedelta_days 50)"]
  by (simp add: timedelta_days_def)

text \<open>
  The claim as first stated gave \<open>recently_completed\<close> whenever the current time lies in
  the thirty days after the end date. An event whose end date precedes its start date is
  \<open>upcoming\<close> there.
\<close>

theorem recently_completed_before_start_counterexample:
  "timedelta_days 50 < timedelta_days 60 \<and>
   timedelta_days 60 \<le> timedelta_days 50 + timedelta_days 30 \<and>
   calculate_event_status example_event (Some (timedelta_days 100)) (Some (timedelta_days 50))
     (timedelta_days 60) \<noteq> ''recently_completed''"
  by (simp add: calculate_event_status_def timedelta_days_def)

section \<open>Dependence of the status on the dates\<close>

text \<open>
  Claim C9, as amended. Two events given to the status computation with the same known
  start date, the same end date (present or absent) and the same current time get the same
  status, whatever else they hold. Without a start date the status returned is the one the
  event has stored.
\<close>

theorem status_depends_on_dates_only:
  "calculate_event_status ev1 (Some s) e now = calculate_event_status ev2 (Some s) e now \<and>
   calculate_event_status ev1 None e now = status ev1"
  by (simp add: calculate_event_status_def)

text \<open>
  Without a start date two events that differ in their stored status only are given
  different statuses.
\<close>

theorem stored_status_counterexample:
  "calculate_event_status (example_event\<lparr>status := ''upcoming''\<rparr>) None None 0 \<noteq>
   calculate_event_status (example_event\<lparr>status := ''completed''\<rparr>) None None 0"
  by (simp add: calculate_event_status_def)

section \<open>The skills map\<close>

lemma length_filter_distinct_key:
  "distinct xs \<Longrightarrow> x \<in> set xs \<Longrightarrow> length (filter (\<lambda>k. k = x) xs) = 1"
  by (induction xs) (auto simp: filter_empty_conv)

lemma get_current_skills_add:
  "get_current_skills (add_skill_memory mc skill now) =
     AList.update (skill_key_of (skill_name skill)) skill (get_current_skills mc)"
  by (simp add: get_current_skills_def add_skill_memory_def save_memory_def Let_def)

lemma distinct_keys_fold_add:
  "distinct (map fst (get_current_skills mc)) \<Longrightarrow>
   distinct (map fst (get_current_skills
     (fold (\<lambda>(skill, now) m. add_skill_memory m skill now) adds mc)))"
proof (induction adds arbitrary: mc)
  case Nil
  then show ?case by simp
next
  case (Cons a adds)
  obtain skill now where a: "a = (skill, now)" by (cases a)
  have "distinct (map fst (get_current_skills (add_skill_memory mc skill now)))"
    using Cons.prems by (simp add: get_current_skills_add distinct_update)
  from Cons.IH [OF this] show ?case by (simp add: a)
qed

text \<open>
  Claim C7, as amended. The key of a skill is its name lower-cased with every space
  replaced by an underscore. After any sequence of additions, to the empty store or to a
  store whose keys are distinct, the keys of the skills map are distinct. Adding a skill
  whose key is already in the map leaves the keys as they are, puts the new record (with
  its \<open>last_updated\<close>) under the key, and the map holds one record for that key.
\<close>

theorem add_skill_memory_one_record_per_key:
  "distinct (map fst (get_current_skills
     (fold (\<lambda>(skill, now) m. add_skill_memory m skill now) adds
        \<lparr>memory_file = Absent, memory_data = new_memory_structure now1 now2\<rparr>))) \<and>
   (distinct (map fst (get_current_skills mc)) \<longrightarrow>
      distinct (map fst (get_current_skills
        (fold (\<lambda>(skill, now) m. add_skill_memory m skill now) adds mc)))) \<and>
   (distinct (map fst (get_current_skills mc)) \<and>
    skill_key_of (skill_name skill) \<in> fst ` set (get_current_skills mc) \<longrightarrow>
      map fst (get_current_skills (add_skill_memory mc skill now)) = map fst (get_current_skills mc) \<and>
      map_of (get_current_skills (add_skill_memory mc skill now)) (skill_key_of (skill_name skill))
        = Some skill \<and>
      length (filter (\<lambda>(k, v). k = skill_key_of (skill_name skill))
        (get_current_skills (add_skill_memory mc skill now))) = 1)"
proof (intro conjI impI)
  show "distinct (map fst (get_current_skills
     (fold (\<lambda>(skill, now) m. add_skill_memory m skill now) adds
        \<lparr>memory_file = Absent, memory_data = new_memory_structure now1 now2\<rparr>)))"
    by (rule distinct_keys_fold_add) (simp add: get_current_skills_def new_memory_structure_def)
next
  assume "distinct (map fst (get_current_skills mc))"
  then show "distinct (map fst (get_current_skills
        (fold (\<lambda>(skill, now) m. add_skill_memory m skill now) adds mc)))"
    by (rule distinct_keys_fold_add)
next
  assume h: "distinct (map fst (get_current_skills mc)) \<and>
    skill_key_of (skill_name skill) \<in> fst ` set (get_current_skills mc)"
  let ?k = "skill_key_of (skill_name skill)"
  let ?al = "AList.update ?k skill (get_current_skills mc)"
  show keys: "map fst (get_current_skills (add_skill_memory mc skill now)) = map fst (get_current_skills mc)"
    using h by (simp add: get_current_skills_add update_keys)
  show "map_of (get_current_skills (add_skill_memory mc skill now)) ?k = Some skill"
    by (simp add: get_current_skills_add update_conv')
  have d: "distinct (map fst ?al)" using h by (simp add: distinct_update)
  have m: "?k \<in> set (map fst ?al)" by (simp add: dom_update)
  have "length (filter (\<lambda>k. k = ?k) (map fst ?al)) = 1"
    using d m by (rule length_filter_distinct_key)
  moreover have "length (filter (\<lambda>(k, v). k = ?k) ?al) = length (filter (\<lambda>k. k = ?k) (map fst ?al))"
    by (simp add: filter_map comp_def case_prod_unfold)
  ultimately show "length (filter (\<lambda>(k, v). k = ?k)
        (get_current_skills (add_skill_memory mc skill now))) = 1"
    by (simp add: get_current_skills_add)
qed


theorem add_skill_memory_one_record_per_key_witness:
  "distinct (map fst (get_current_skills
     (add_skill_memory empty_core (example_skill ''Data Analysis'' ''t1'') ''t1''))) \<and>
   skill_key_of (skill_name (example_skill ''data analysis'' ''t2'')) \<in> fst ` set (get_current_skills
     (add_skill_memory empty_core (example_skill ''Data Analysis'' ''t1'') ''t1'')) \<and>
   map_of (get_current_skills
     (add_skill_memory
        (add_skill_memory empty_core (example_skill ''Data Analysis'' ''t1'') ''t1'')
        (example_skill ''data analysis'' ''t2'') ''t2''))
     (skill_key_of (skill_name (example_skill ''data analysis'' ''t2'')))
     = Some (example_skill ''data analysis'' ''t2'') \<and>
   distinct (map fst (get_current_skills
     (fold (\<lambda>(skill, now) m. add_skill_memory m skill now)
        [(example_skill ''data analysis'' ''t2'', ''t2''), (example_skill ''SQL'' ''t3'', ''t3'')]
        (add_skill_memory empty_core (example_skill ''Data Analysis'' ''t1'') ''t1''))))"
proof -
  have h: "distinct (map fst (get_current_skills
       (add_skill_memory empty_core (example_skill ''Data Analysis'' ''t1'') ''t1''))) \<and>
     skill_key_of (skill_name (example_skill ''data analysis'' ''t2'')) \<in> fst ` set (get_current_skills
       (add_skill_memory empty_core (example_skill ''Data Analysis'' ''t1'') ''t1''))"
    by code_simp
  from add_skill_memory_one_record_per_key
    [where mc = "add_skill_memory empty_core (example_skill ''Data Analysis'' ''t1'') ''t1''"
       and skill = "example_skill ''data analysis'' ''t2''" and now = "''t2''"
       and adds = "[(example_skill ''data analysis'' ''t2'', ''t2''),
                    (example_skill ''SQL'' ''t3'', ''t3'')]"] h
  show ?thesis by blast
qed

text \<open>
  Two names that differ in a doubled space have one key once whitespace is collapsed, and
  the store keeps a record for each.
\<close>

theorem collapsed_names_counterexample:
  "spec_normalized_key ''Data  Analysis'' = spec_normalized_key ''Data Analysis'' \<and>
   length (get_current_skills
     (add_skill_memory (add_skill_memory empty_core (example_skill ''Data Analysis'' ''t1'') ''t1'')
        (example_skill ''Data  Analysis'' ''t2'') ''t2'')) = 2"
  by code_simp

section \<open>Loading the memory file\<close>

lemma load_memory_default:
  "f = Absent \<or> f = Present (Inl JSONDecodeError) \<or> f = Present (Inl FileNotFoundError) \<Longrightarrow>
     load_memory f now1 now2 = Inr (new_memory_structure now1 now2)"
  by (auto simp: load_memory_def os_path_exists_def open_json_load_def)

lemma load_memory_raises:
  "(load_memory f now1 now2 = Inl e) =
     (f = Present (Inl e) \<and> e \<noteq> JSONDecodeError \<and> e \<noteq> FileNotFoundError)"
proof (cases f)
  case Absent
  then show ?thesis by (simp add: load_memory_def os_path_exists_def)
next
  case (Present r)
  then show ?thesis
    by (cases r) (auto simp: load_memory_def os_path_exists_def open_json_load_def)
qed

text \<open>
  Claim C8. The loader means to answer a failed load with the default structure, and does
  so for a file that is absent, whose text is not JSON, or that is removed between the
  existence test and the opening. Its \<^verbatim>\<open>except\<close> clause names two exceptions only. A file
  that exists and may not be read makes \<^verbatim>\<open>open\<close> raise \<open>PermissionError\<close>, a file whose
  bytes are not UTF-8 makes the read raise \<open>UnicodeDecodeError\<close>; neither is caught, and
  the loader raises where the claim has it return the default structure.
\<close>

theorem load_memory_unreadable_raises:
  "load_memory (Present (Inl PermissionError)) ''2025-01-01T00:00:00'' ''2025-01-01T00:00:01''
     = Inl PermissionError \<and>
   load_memory (Present (Inl UnicodeDecodeError)) ''2025-01-01T00:00:00'' ''2025-01-01T00:00:01''
     = Inl UnicodeDecodeError \<and>
   load_memory (Present (Inl JSONDecodeError)) ''2025-01-01T00:00:00'' ''2025-01-01T00:00:01''
     = Inr (new_memory_structure ''2025-01-01T00:00:00'' ''2025-01-01T00:00:01'') \<and>
   load_memory Absent ''2025-01-01T00:00:00'' ''2025-01-01T00:00:01''
     = Inr (new_memory_structure ''2025-01-01T00:00:00'' ''2025-01-01T00:00:01'')"
  by (simp add: load_memory_def os_path_exists_def open_json_load_def)

section \<open>The relevance of a style preference\<close>

text \<open>
  Claim C10. The relevance of a style preference is 0.7 or 0.9 for every preference and
  every analysis, so it is above the floor of 0.5, and the loop that scores the
  preferences of a category keeps every one of them.
\<close>

theorem score_style_relevance_values:
  "(score_style_relevance style ja = 7 / 10 \<or> score_style_relevance style ja = 9 / 10) \<and>
   score_style_relevance style ja > 5 / 10 \<and>
   score_styles ja prefs = map (\<lambda>pref. (pref, score_style_relevance pref ja)) prefs"
proof -
  have v: "\<And>st. score_style_relevance st ja = 7 / 10 \<or> score_style_relevance st ja = 9 / 10"
    by (simp add: score_style_relevance_def Let_def)
  have g: "\<And>st. score_style_relevance st ja > 5 / 10"
  proof -
    fix st
    from v [of st] show "score_style_relevance st ja > 5 / 10" by auto
  qed
  have "score_styles ja prefs = map (\<lambda>pref. (pref, score_style_relevance pref ja)) prefs"
    unfolding score_styles_def by (rule filter_True) (use g in auto)
  with v g show ?thesis by blast
qed

section \<open>The analysis of a job description\<close>

lemma first_max_mem: "first_max b xs \<in> set (b # xs)"
  by (induction xs arbitrary: b) auto

lemma map_fst_map_entry: "map fst (AList.map_entry k f xs) = map fst xs"
  by (induction xs) auto

lemma role_keys:
  "map fst self_role_types =
     [''technical_it'', ''business_analyst'', ''finance'', ''project_management'', ''management'']"
  by (simp add: self_role_types_def)

lemma classify_job_role_range:
  "classify_job_role job_lower \<in> set (''unknown'' # map fst self_role_types)"
proof -
  have "\<And>rs. map fst rs = map fst self_role_types \<Longrightarrow>
      (case rs of [] \<Rightarrow> ''unknown''
       | r # rs' \<Rightarrow> if snd (first_max r rs') > 0 then fst (first_max r rs') else ''unknown'')
      \<in> set (''unknown'' # map fst self_role_types)"
  proof -
    fix rs :: "(string \<times> nat) list"
    assume k: "map fst rs = map fst self_role_types"
    show "(case rs of [] \<Rightarrow> ''unknown''
       | r # rs' \<Rightarrow> if snd (first_max r rs') > 0 then fst (first_max r rs') else ''unknown'')
      \<in> set (''unknown'' # map fst self_role_types)"
    proof (cases rs)
      case Nil
      then show ?thesis by simp
    next
      case (Cons r rs')
      have "first_max r rs' \<in> set rs" using first_max_mem [of r rs'] Cons by simp
      then have "fst (first_max r rs') \<in> set (map fst rs)" by simp
      then have "fst (first_max r rs') \<in> set (map fst self_role_types)" by (simp only: k)
      then show ?thesis using Cons by simp
    qed
  qed
  then show ?thesis
    unfolding classify_job_role_def Let_def
    by (simp add: map_fst_map_entry comp_def case_prod_unfold del: set_simps)
qed

lemma fold_preserves:
  "(\<And>x s. g (f x s) = g s) \<Longrightarrow> g (fold f xs s) = g s"
  by (induction xs arbitrary: s) auto

lemma fold_keeps:
  assumes "I start"
    and "\<And>item acc. item \<in> set items \<Longrightarrow> I acc \<Longrightarrow> I (step item acc)"
  shows "I (fold step items start)"
  using assms by (induction items arbitrary: start) auto

lemma list_all_update:
  "list_all P al \<Longrightarrow> P (k, v) \<Longrightarrow> list_all P (AList.update k v al)"
  by (induction al) auto

lemma map_of_in_table: "(d, ks) \<in> set tbl \<Longrightarrow> map_of tbl d \<noteq> None"
  by (induction tbl) auto

lemma analyze_business_requirements_other:
  "required_skills (analyze_business_requirements jl a w) = required_skills a"
  "preferred_skills (analyze_business_requirements jl a w) = preferred_skills a"
  "tech_domains (analyze_business_requirements jl a w) = tech_domains a"
  "experience_level (analyze_business_requirements jl a w) = experience_level a"
  "key_responsibilities (analyze_business_requirements jl a w) = key_responsibilities a"
  "job_role_type (analyze_business_requirements jl a w) = job_role_type a"
  "primary_focus (analyze_business_requirements jl a w) = primary_focus a"
  unfolding analyze_business_requirements_def
  by (rule fold_preserves, simp add: Let_def split_def)+

lemma analyze_technical_requirements_other:
  "required_skills (analyze_technical_requirements jl a w) = required_skills a"
  "preferred_skills (analyze_technical_requirements jl a w) = preferred_skills a"
  "business_domains (analyze_technical_requirements jl a w) = business_domains a"
  "experience_level (analyze_technical_requirements jl a w) = experience_level a"
  "key_responsibilities (analyze_technical_requirements jl a w) = key_responsibilities a"
  "job_role_type (analyze_technical_requirements jl a w) = job_role_type a"
  "primary_focus (analyze_technical_requirements jl a w) = primary_focus a"
  unfolding analyze_technical_requirements_def
  by (rule fold_preserves, simp add: Let_def split_def)+

lemma analyze_business_requirements_ok:
  "domains_ok self_business_domains (business_domains a) \<Longrightarrow>
   domains_ok self_business_domains (business_domains (analyze_business_requirements jl a w))"
  unfolding analyze_business_requirements_def
proof (rule fold_keeps [where I = "\<lambda>a. domains_ok self_business_domains (business_domains a)"])
  fix x :: "string \<times> string list" and s :: job_analysis
  assume x: "x \<in> set self_business_domains"
    and s: "domains_ok self_business_domains (business_domains s)"
  obtain d ks where dk: "x = (d, ks)" by (cases x)
  have "map_of self_business_domains d \<noteq> None" using x dk by (simp add: map_of_in_table)
  then show "domains_ok self_business_domains (business_domains
      ((\<lambda>(domain, keywords) a.
          let domain_score = keyword_score keywords jl w
          in if 0 < domain_score
             then a\<lparr>business_domains := AList.update domain domain_score (business_domains a)\<rparr>
             else a) x s))"
    using s by (simp add: dk Let_def domains_ok_def list_all_update)
qed

lemma analyze_technical_requirements_ok:
  "domains_ok self_tech_domains (tech_domains a) \<Longrightarrow>
   domains_ok self_tech_domains (tech_domains (analyze_technical_requirements jl a w))"
  unfolding analyze_technical_requirements_def
proof (rule fold_keeps [where I = "\<lambda>a. domains_ok self_tech_domains (tech_domains a)"])
  fix x :: "string \<times> string list" and s :: job_analysis
  assume x: "x \<in> set self_tech_domains"
    and s: "domains_ok self_tech_domains (tech_domains s)"
  obtain d ks where dk: "x = (d, ks)" by (cases x)
  have "map_of self_tech_domains d \<noteq> None" using x dk by (simp add: map_of_in_table)
  then show "domains_ok self_tech_domains (tech_domains
      ((\<lambda>(domain, keywords) a.
          let domain_score = keyword_score keywords jl w
          in if 0 < domain_score
             then a\<lparr>tech_domains := AList.update domain domain_score (tech_domains a)\<rparr>
             else a) x s))"
    using s by (simp add: dk Let_def domains_ok_def list_all_update)
qed

lemmas analyze_other = analyze_business_requirements_other analyze_technical_requirements_other

lemma analyze_job_role_type:
  "job_role_type (analyze_job_requirements jd) = classify_job_role (lower jd)"
  by (simp add: analyze_job_requirements_def Let_def analyze_other)

lemma analyze_primary_focus:
  "primary_focus (analyze_job_requirements jd) = ''business'' \<or>
   primary_focus (analyze_job_requirements jd) = ''technical''"
  by (simp add: analyze_job_requirements_def Let_def analyze_other)

lemma analyze_experience_level:
  "experience_level (analyze_job_requirements jd) \<in> set [''senior'', ''junior'', ''mid'']"
  by (simp add: analyze_job_requirements_def Let_def analyze_other)

lemma domains_ok_Nil: "domains_ok domains []"
  by (simp add: domains_ok_def)

lemma analyze_domains_ok:
  "domains_ok self_tech_domains (tech_domains (analyze_job_requirements jd)) \<and>
   domains_ok self_business_domains (business_domains (analyze_job_requirements jd))"
  by (simp add: analyze_job_requirements_def Let_def analyze_other
      analyze_business_requirements_ok analyze_technical_requirements_ok domains_ok_Nil)

lemma analysis_empty: "analyze_job_requirements [] =
  \<lparr>required_skills = [], preferred_skills = [], tech_domains = [],
    business_domains = [], experience_level = ''mid'',
    key_responsibilities = [], company_focus = [],
    explicit_technologies = [], job_role_type = ''unknown'',
    primary_focus = ''technical''\<rparr>"
  by code_simp

lemma raise_bind_simps:
  "raise_bind (Inr x) f = f x"
  "raise_bind (Inl e) f = Inl e"
  by (simp_all add: raise_bind_def)

lemma raise_map_if:
  "(\<And>x. x \<in> set xs \<Longrightarrow> f x = (if bad x then Inl e else Inr (g x))) \<Longrightarrow>
   raise_map f xs = (if list_ex bad xs then Inl e else Inr (map g xs))"
  by (induction xs) (simp_all add: raise_bind_simps)

lemma raise_fold_if:
  "(\<And>x s. x \<in> set xs \<Longrightarrow> f x s = (if bad x then Inl e else Inr (g x s))) \<Longrightarrow>
   raise_fold f xs s = (if list_ex bad xs then Inl e else Inr (fold g xs s))"
  by (induction xs arbitrary: s) (simp_all add: raise_bind_simps)

lemma count_keyword_on_if:
  "count_keyword_on minor keyword text =
     (if refused minor keyword then Inl ReError else Inr (count_keyword keyword text))"
  by (simp add: count_keyword_on_def count_keyword_def re_compile_def raise_bind_simps)

lemma role_pattern_score_on_if:
  "role_pattern_score_on minor job_lower patterns =
     (if list_ex (refused minor) patterns then Inl ReError
      else Inr (role_pattern_score job_lower patterns))"
  unfolding role_pattern_score_on_def role_pattern_score_def
  by (subst raise_map_if [where bad = "refused minor" and e = ReError and
        g = "\<lambda>pattern. count_keyword pattern job_lower +
          (if py_in pattern (take 200 job_lower) then 3 else 0)"])
     (simp_all add: count_keyword_on_if raise_bind_simps)

lemma keyword_score_on_if:
  "keyword_score_on minor keywords job_lower weight =
     (if list_ex (refused minor) keywords then Inl ReError
      else Inr (keyword_score keywords job_lower weight))"
  unfolding keyword_score_on_def keyword_score_def
  by (subst raise_map_if [where bad = "refused minor" and e = ReError and
        g = "\<lambda>keyword. of_nat (count_keyword keyword job_lower) * weight"])
     (simp_all add: count_keyword_on_if raise_bind_simps)

lemma content_score_on_if:
  "content_score_on minor domains job_lower =
     (if list_ex (\<lambda>(domain, keywords). list_ex (refused minor) keywords) domains then Inl ReError
      else Inr (content_score domains job_lower))"
  unfolding content_score_on_def content_score_def
  by (subst raise_map_if [where bad = "\<lambda>(domain, keywords). list_ex (refused minor) keywords"
        and e = ReError and
        g = "\<lambda>(domain, keywords). sum_list (map (\<lambda>keyword. count_keyword keyword job_lower) keywords)"])
     (auto simp add: count_keyword_on_if raise_bind_simps
        raise_map_if [where bad = "refused minor" and e = ReError and
          g = "\<lambda>keyword. count_keyword keyword job_lower"])

lemma classify_job_role_on_if:
  "classify_job_role_on minor job_lower =
     (if list_ex (\<lambda>(role_type, patterns). list_ex (refused minor) patterns) self_role_types
      then Inl ReError else Inr (classify_job_role job_lower))"
  unfolding classify_job_role_on_def classify_job_role_def
  by (subst raise_map_if [where bad = "\<lambda>(role_type, patterns). list_ex (refused minor) patterns"
        and e = ReError and
        g = "\<lambda>(role_type, patterns). (role_type, role_pattern_score job_lower patterns)"])
     (auto simp add: role_pattern_score_on_if raise_bind_simps Let_def)

lemma analyze_business_requirements_on_if:
  "analyze_business_requirements_on minor job_lower analysis weight =
     (if list_ex (\<lambda>(domain, keywords). list_ex (refused minor) keywords) self_business_domains
      then Inl ReError else Inr (analyze_business_requirements job_lower analysis weight))"
  unfolding analyze_business_requirements_on_def analyze_business_requirements_def
  by (rule raise_fold_if) (auto simp add: keyword_score_on_if raise_bind_simps Let_def)

lemma analyze_technical_requirements_on_if:
  "analyze_technical_requirements_on minor job_lower analysis weight =
     (if list_ex (\<lambda>(domain, keywords). list_ex (refused minor) keywords) self_tech_domains
      then Inl ReError else Inr (analyze_technical_requirements job_lower analysis weight))"
  unfolding analyze_technical_requirements_on_def analyze_technical_requirements_def
  by (rule raise_fold_if) (auto simp add: keyword_score_on_if raise_bind_simps Let_def)

lemma possessive_tables:
  "list_ex (\<lambda>(role_type, patterns). list_ex (\<lambda>k. list_ex is_possessive (regex_of k)) patterns)
     self_role_types = False"
  "list_ex (\<lambda>(domain, keywords). list_ex (\<lambda>k. list_ex is_possessive (regex_of k)) keywords)
     self_business_domains = False"
  "list_ex (\<lambda>(domain, keywords). list_ex (\<lambda>k. list_ex is_possessive (regex_of k)) keywords)
     self_tech_domains = True"
  by code_simp+

lemma list_ex_refused:
  "list_ex (\<lambda>(name, keywords). list_ex (refused minor) keywords) table =
     (minor < 11 \<and>
      list_ex (\<lambda>(name, keywords). list_ex (\<lambda>k. list_ex is_possessive (regex_of k)) keywords) table)"
  by (induction table) (auto simp add: refused_def list_ex_iff)

lemma refused_tables:
  "list_ex (\<lambda>(role_type, patterns). list_ex (refused minor) patterns) self_role_types = False"
  "list_ex (\<lambda>(domain, keywords). list_ex (refused minor) keywords) self_business_domains = False"
  "list_ex (\<lambda>(domain, keywords). list_ex (refused minor) keywords) self_tech_domains = (minor < 11)"
  by (simp_all only: list_ex_refused possessive_tables simp_thms)

lemma analyze_job_requirements_on_raises:
  "analyze_job_requirements_on minor job_description =
     (if minor < 11 \<and>
         classify_job_role (lower job_description) \<notin>
           set [''business_analyst'', ''finance'', ''project_management'']
      then Inl ReError else Inr (analyze_job_requirements job_description))"
proof (cases "minor < 11")
  case True
  show ?thesis
    unfolding analyze_job_requirements_on_def analyze_job_requirements_def
    by (simp add: True classify_job_role_on_if analyze_business_requirements_on_if
      analyze_technical_requirements_on_if score_business_content_on_def
      score_technical_content_on_def content_score_on_if refused_tables raise_bind_simps Let_def)
next
  case False
  show ?thesis
    unfolding analyze_job_requirements_on_def analyze_job_requirements_def
    by (simp only: False classify_job_role_on_if analyze_business_requirements_on_if
      analyze_technical_requirements_on_if score_business_content_on_def
      score_technical_content_on_def content_score_on_if refused_tables raise_bind_simps Let_def
      score_business_content_def score_technical_content_def if_False simp_thms
      if_distrib [of "\<lambda>m. raise_bind m f" for f] if_distrib [of Inr, symmetric] cong: if_cong)
qed

lemma analysis_profile:
  "job_role_type (analyze_job_requirements jd) \<in>
     set [''unknown'', ''technical_it'', ''business_analyst'', ''finance'', ''project_management'',
          ''management''] \<and>
   primary_focus (analyze_job_requirements jd) \<in> set [''business'', ''technical''] \<and>
   experience_level (analyze_job_requirements jd) \<in> set [''senior'', ''junior'', ''mid'']"
proof -
  have r1: "job_role_type (analyze_job_requirements jd) \<in>
     set [''unknown'', ''technical_it'', ''business_analyst'', ''finance'', ''project_management'',
          ''management'']"
    using classify_job_role_range [of "lower jd"]
    by (simp only: analyze_job_role_type role_keys)
  have f: "primary_focus (analyze_job_requirements jd) \<in> set [''business'', ''technical'']"
    using analyze_primary_focus [of jd] by auto
  show ?thesis using r1 f analyze_experience_level [of jd] by blast
qed

lemma raise_map_raises:
  assumes "\<And>x. x \<in> set xs \<Longrightarrow> bad x \<Longrightarrow> f x = Inl e"
    and "\<And>x. x \<in> set xs \<Longrightarrow> \<not> bad x \<Longrightarrow> \<exists>y. f x = Inr y"
    and "list_ex bad xs"
  shows "raise_map f xs = Inl e"
  using assms
proof (induction xs)
  case Nil
  then show ?case by simp
next
  case (Cons x xs)
  show ?case
  proof (cases "bad x")
    case True
    then show ?thesis using Cons.prems(1) [of x] by (simp add: raise_bind_simps)
  next
    case False
    then obtain y where y: "f x = Inr y" using Cons.prems(2) [of x] by auto
    have "list_ex bad xs" using Cons.prems(3) False by simp
    then have "raise_map f xs = Inl e" using Cons.IH Cons.prems(1,2) by simp
    then show ?thesis by (simp add: y raise_bind_simps)
  qed
qed

lemma raise_map_returns:
  assumes "\<And>x. x \<in> set xs \<Longrightarrow> \<exists>y. f x = Inr y"
  shows "\<exists>ys. raise_map f xs = Inr ys"
  using assms
proof (induction xs)
  case Nil
  then show ?case by simp
next
  case (Cons x xs)
  obtain y where y: "f x = Inr y" using Cons.prems [of x] by auto
  obtain ys where ys: "raise_map f xs = Inr ys" using Cons.IH Cons.prems by auto
  show ?case by (simp add: y ys raise_bind_simps)
qed

lemma industry_score_cases:
  "list_ex (refused minor) (fst patterns) \<Longrightarrow> industry_score minor job_lower patterns = Inl ReError"
  "\<not> list_ex (refused minor) (fst patterns) \<Longrightarrow> \<exists>n. industry_score minor job_lower patterns = Inr n"
proof -
  obtain kws context_indicators tech_stack
    where p: "patterns = (kws, context_indicators, tech_stack)" by (cases patterns)
  have m: "raise_map (\<lambda>keyword.
        raise_bind (count_keyword_on minor keyword job_lower) (\<lambda>count. Inr (count * 2))) kws =
      (if list_ex (refused minor) kws then Inl ReError
       else Inr (map (\<lambda>keyword. count_keyword keyword job_lower * 2) kws))"
    by (rule raise_map_if) (simp add: count_keyword_on_if raise_bind_simps)
  show "list_ex (refused minor) (fst patterns) \<Longrightarrow> industry_score minor job_lower patterns = Inl ReError"
    by (simp add: industry_score_def p m raise_bind_simps)
  show "\<not> list_ex (refused minor) (fst patterns) \<Longrightarrow> \<exists>n. industry_score minor job_lower patterns = Inr n"
    by (simp add: industry_score_def p m raise_bind_simps)
qed

lemma adv_role_score_cases:
  "list_ex (refused minor) (fst config) \<Longrightarrow> adv_role_score minor job_text config = Inl ReError"
  "\<not> list_ex (refused minor) (fst config) \<Longrightarrow> \<exists>n. adv_role_score minor job_text config = Inr n"
proof -
  obtain patterns weight complexity_indicators
    where c: "config = (patterns, weight, complexity_indicators)" by (cases config)
  have m: "raise_map (\<lambda>pattern.
        raise_bind (count_keyword_on minor pattern job_text)
          (\<lambda>matches. Inr (matches + (if py_in pattern (take 200 job_text) then 3 else 0)))) patterns =
      (if list_ex (refused minor) patterns then Inl ReError
       else Inr (map (\<lambda>pattern. count_keyword pattern job_text +
              (if py_in pattern (take 200 job_text) then 3 else 0)) patterns))"
    by (rule raise_map_if) (simp add: count_keyword_on_if raise_bind_simps)
  show "list_ex (refused minor) (fst config) \<Longrightarrow> adv_role_score minor job_text config = Inl ReError"
    by (simp add: adv_role_score_def c m raise_bind_simps)
  show "\<not> list_ex (refused minor) (fst config) \<Longrightarrow> \<exists>n. adv_role_score minor job_text config = Inr n"
    by (simp add: adv_role_score_def c m raise_bind_simps)
qed

lemma scored_table:
  "raise_map (\<lambda>(name, config). raise_bind (f config) (\<lambda>score. Inr (name, score))) table =
     Inr scores \<Longrightarrow> map fst scores = map fst table"
proof (induction table arbitrary: scores)
  case Nil
  then show ?case by simp
next
  case (Cons x xs)
  obtain name config where x: "x = (name, config)" by (cases x)
  from Cons.prems obtain score rest where
    s: "f config = Inr score" and
    r: "raise_map (\<lambda>(name, config). raise_bind (f config) (\<lambda>score. Inr (name, score))) xs = Inr rest"
    and sc: "scores = (name, score) # rest"
    by (auto simp add: x raise_bind_def split: sum.splits)
  from Cons.IH [OF r] sc show ?case by (simp add: x)
qed

lemma classify_role_advanced_range:
  assumes "classify_role_advanced minor job_text = Inr v"
  shows "fst v \<in> set (''unknown'' # map fst adv_role_types)"
proof -
  from assms obtain scores where
    m: "raise_map (\<lambda>(role_type, config).
          raise_bind (adv_role_score minor job_text config) (\<lambda>score. Inr (role_type, score)))
        adv_role_types = Inr scores"
    by (auto simp add: classify_role_advanced_def raise_bind_def split: sum.splits)
  have k: "map fst scores = map fst adv_role_types" by (rule scored_table [OF m])
  define rs where "rs = filter (\<lambda>(role_type, score). score > 0) scores"
  have sub: "fst ` set rs \<subseteq> set (map fst adv_role_types)"
    unfolding rs_def k [symmetric] by force
  have v: "v = (case rs of
                [] \<Rightarrow> (''unknown'', 0, [])
              | s # rest \<Rightarrow>
                  (let max_score = snd (first_max s rest);
                       total_score = sum_list (map snd rs);
                       confidence =
                         (if total_score > 0 then of_nat max_score / of_nat total_score else 0)
                   in (fst (first_max s rest), confidence, rs)))"
    using assms unfolding rs_def
    by (auto simp add: classify_role_advanced_def m raise_bind_simps Let_def)
  show ?thesis
  proof (cases rs)
    case Nil
    then show ?thesis by (simp add: v)
  next
    case (Cons s rest)
    have "first_max s rest \<in> set rs" using first_max_mem [of s rest] Cons by simp
    then have "fst (first_max s rest) \<in> set (map fst adv_role_types)" using sub by auto
    then show ?thesis using Cons by (simp add: v Let_def)
  qed
qed

lemma classify_role_advanced_returns:
  assumes "\<not> list_ex (\<lambda>(role_type, config). list_ex (refused minor) (fst config)) adv_role_types"
  shows "\<exists>v. classify_role_advanced minor job_text = Inr v"
proof -
  have "\<exists>scores. raise_map (\<lambda>(role_type, config).
          raise_bind (adv_role_score minor job_text config) (\<lambda>score. Inr (role_type, score)))
        adv_role_types = Inr scores"
  proof (rule raise_map_returns)
    fix x assume x: "x \<in> set adv_role_types"
    obtain role_type config where rc: "x = (role_type, config)" by (cases x)
    have "\<not> list_ex (refused minor) (fst config)" using assms x rc by (auto simp add: list_ex_iff)
    then obtain n where "adv_role_score minor job_text config = Inr n"
      using adv_role_score_cases(2) by blast
    then show "\<exists>y. (case x of (role_type, config) \<Rightarrow>
          raise_bind (adv_role_score minor job_text config) (\<lambda>score. Inr (role_type, score))) = Inr y"
      by (simp add: rc raise_bind_simps)
  qed
  then obtain scores where "raise_map (\<lambda>(role_type, config).
          raise_bind (adv_role_score minor job_text config) (\<lambda>score. Inr (role_type, score)))
        adv_role_types = Inr scores" by blast
  then show ?thesis
    by (simp add: classify_role_advanced_def raise_bind_simps Let_def del: split_paired_Ex)
qed

lemma classify_industry_returns:
  assumes "\<not> list_ex (\<lambda>(ind, patterns). list_ex (refused minor) (fst patterns)) industry_patterns"
  shows "\<exists>v. classify_industry minor job_description = Inr v"
proof -
  have "\<exists>scores. raise_map (\<lambda>(ind, patterns).
          raise_bind (industry_score minor (lower job_description) patterns) (\<lambda>score. Inr (ind, score)))
        industry_patterns = Inr scores"
  proof (rule raise_map_returns)
    fix x assume x: "x \<in> set industry_patterns"
    obtain ind patterns where rc: "x = (ind, patterns)" by (cases x)
    have "\<not> list_ex (refused minor) (fst patterns)" using assms x rc by (auto simp add: list_ex_iff)
    then obtain n where "industry_score minor (lower job_description) patterns = Inr n"
      using industry_score_cases(2) by blast
    then show "\<exists>y. (case x of (ind, patterns) \<Rightarrow>
          raise_bind (industry_score minor (lower job_description) patterns) (\<lambda>score. Inr (ind, score))) = Inr y"
      by (simp add: rc raise_bind_simps)
  qed
  then obtain scores where "raise_map (\<lambda>(ind, patterns).
          raise_bind (industry_score minor (lower job_description) patterns) (\<lambda>score. Inr (ind, score)))
        industry_patterns = Inr scores" by blast
  then show ?thesis by (simp add: classify_industry_def raise_bind_simps Let_def)
qed

lemma extract_skills_advanced_returns:
  assumes "\<not> list_ex (refused minor) soft_skill_patterns"
  shows "\<exists>v. extract_skills_advanced minor job_text = Inr v"
proof -
  have m: "raise_map (\<lambda>pattern.
                raise_bind (re_compile minor pattern)
                  (\<lambda>p. Inr (if search_atoms p job_text
                             then [replace_char CHR ''.'' CHR '' '' pattern] else [])))
              soft_skill_patterns =
      (if list_ex (refused minor) soft_skill_patterns then Inl ReError
       else Inr (map (\<lambda>pattern. if search_atoms (regex_of pattern) job_text
                             then [replace_char CHR ''.'' CHR '' '' pattern] else [])
                  soft_skill_patterns))"
    by (rule raise_map_if) (simp add: re_compile_def raise_bind_simps)
  show ?thesis using assms by (simp add: extract_skills_advanced_def m raise_bind_simps Let_def)
qed

lemma domain_score_cases:
  "list_ex (refused minor) kws \<Longrightarrow>
     raise_bind
       (raise_map (\<lambda>keyword.
            raise_bind (count_keyword_on minor keyword job_text)
              (\<lambda>count. Inr (of_nat count * (weight :: rat)))) kws) h = Inl ReError"
  "\<not> list_ex (refused minor) kws \<Longrightarrow>
     \<exists>z. raise_bind
       (raise_map (\<lambda>keyword.
            raise_bind (count_keyword_on minor keyword job_text)
              (\<lambda>count. Inr (of_nat count * (weight :: rat)))) kws) (\<lambda>scores. Inr (g scores)) = Inr z"
proof -
  have k: "raise_map (\<lambda>keyword.
                   raise_bind (count_keyword_on minor keyword job_text)
                     (\<lambda>count. Inr (of_nat count * weight))) kws =
      (if list_ex (refused minor) kws then Inl ReError
       else Inr (map (\<lambda>keyword. of_nat (count_keyword keyword job_text) * (weight :: rat)) kws))"
    by (rule raise_map_if) (simp add: count_keyword_on_if raise_bind_simps)
  show "list_ex (refused minor) kws \<Longrightarrow>
     raise_bind
       (raise_map (\<lambda>keyword.
            raise_bind (count_keyword_on minor keyword job_text)
              (\<lambda>count. Inr (of_nat count * (weight :: rat)))) kws) h = Inl ReError"
    by (simp add: k raise_bind_simps)
  show "\<not> list_ex (refused minor) kws \<Longrightarrow>
     \<exists>z. raise_bind
       (raise_map (\<lambda>keyword.
            raise_bind (count_keyword_on minor keyword job_text)
              (\<lambda>count. Inr (of_nat count * (weight :: rat)))) kws) (\<lambda>scores. Inr (g scores)) = Inr z"
    by (simp add: k raise_bind_simps)
qed

lemma score_domains_advanced_cases:
  "list_ex (\<lambda>(domain, config). list_ex (refused minor) (fst config)) domains \<Longrightarrow>
     score_domains_advanced minor job_text domains ia = Inl ReError"
  "\<not> list_ex (\<lambda>(domain, config). list_ex (refused minor) (fst config)) domains \<Longrightarrow>
     \<exists>v. score_domains_advanced minor job_text domains ia = Inr v"
proof -
  let ?f = "\<lambda>(domain, kws, weight, industry_boost).
            raise_bind
              (raise_map (\<lambda>keyword.
                   raise_bind (count_keyword_on minor keyword job_text)
                     (\<lambda>count. Inr (of_nat count * weight)))
                 kws)
              (\<lambda>scores.
                 (let score = sum_list scores
                  in Inr (domain,
                       (case map_of industry_boost (industry ia) of
                          None \<Rightarrow> score
                        | Some boost \<Rightarrow> score * boost))))"
  let ?bad = "\<lambda>(domain, config). list_ex (refused minor) (fst config)"
  have b: "\<And>x :: string \<times> string list \<times> rat \<times> (string \<times> rat) list.
      ?bad x \<Longrightarrow> ?f x = Inl ReError"
  proof -
    fix x :: "string \<times> string list \<times> rat \<times> (string \<times> rat) list"
    assume bx: "(case x of (domain, config) \<Rightarrow> list_ex (refused minor) (fst config))"
    obtain domain kws weight industry_boost where x: "x = (domain, kws, weight, industry_boost)"
      by (cases x)
    from bx x have "list_ex (refused minor) kws" by simp
    then show "?f x = Inl ReError" by (simp add: x domain_score_cases(1))
  qed
  have g: "\<And>x :: string \<times> string list \<times> rat \<times> (string \<times> rat) list.
      \<not> ?bad x \<Longrightarrow> \<exists>y. ?f x = Inr y"
  proof -
    fix x :: "string \<times> string list \<times> rat \<times> (string \<times> rat) list"
    assume bx: "\<not> (case x of (domain, config) \<Rightarrow> list_ex (refused minor) (fst config))"
    obtain domain kws weight industry_boost where x: "x = (domain, kws, weight, industry_boost)"
      by (cases x)
    from bx x have "\<not> list_ex (refused minor) kws" by simp
    then show "\<exists>y. ?f x = Inr y"
      using domain_score_cases(2) [of minor kws job_text weight
          "\<lambda>scores. (domain, (case map_of industry_boost (industry ia) of
                          None \<Rightarrow> sum_list scores
                        | Some boost \<Rightarrow> sum_list scores * boost))"]
      by (simp add: x Let_def del: split_paired_Ex)
  qed
  show "list_ex ?bad domains \<Longrightarrow> score_domains_advanced minor job_text domains ia = Inl ReError"
  proof -
    assume "list_ex ?bad domains"
    then have l: "list_ex ?bad domains" .
    have "raise_map ?f domains = Inl ReError"
    proof (rule raise_map_raises [where bad = ?bad])
      fix x assume "x \<in> set domains" and "?bad x"
      then show "?f x = Inl ReError" using b by blast
    next
      fix x assume "x \<in> set domains" and "\<not> ?bad x"
      then show "\<exists>y. ?f x = Inr y" using g by blast
    next
      show "list_ex ?bad domains" by (rule l)
    qed
    then show ?thesis by (simp add: score_domains_advanced_def raise_bind_simps)
  qed
  show "\<not> list_ex ?bad domains \<Longrightarrow> \<exists>v. score_domains_advanced minor job_text domains ia = Inr v"
  proof -
    assume n: "\<not> list_ex ?bad domains"
    have "\<exists>ys. raise_map ?f domains = Inr ys"
    proof (rule raise_map_returns)
      fix x assume "x \<in> set domains"
      then have "\<not> ?bad x" using n by (auto simp add: list_ex_iff)
      then show "\<exists>y. ?f x = Inr y" by (rule g)
    qed
    then show ?thesis by (auto simp add: score_domains_advanced_def raise_bind_simps)
  qed
qed

lemma encode_cases:
  "Surrogate \<in> set s \<Longrightarrow> encode s = Inl UnicodeEncodeError"
  "Surrogate \<notin> set s \<Longrightarrow> \<exists>bytes. encode s = Inr bytes"
proof -
  show "Surrogate \<in> set s \<Longrightarrow> encode s = Inl UnicodeEncodeError"
  proof (induction s)
    case Nil
    then show ?case by simp
  next
    case (Cons c cs)
    show ?case
    proof (cases c)
      case (Latin ch)
      then have "encode cs = Inl UnicodeEncodeError" using Cons by simp
      then show ?thesis by (simp add: Latin raise_bind_simps)
    next
      case Surrogate
      then show ?thesis by simp
    qed
  qed
  show "Surrogate \<notin> set s \<Longrightarrow> \<exists>bytes. encode s = Inr bytes"
  proof (induction s)
    case Nil
    then show ?case by simp
  next
    case (Cons c cs)
    then obtain bytes where b: "encode cs = Inr bytes" by auto
    from Cons.prems obtain ch where "c = Latin ch" by (cases c) auto
    then show ?case by (simp add: b raise_bind_simps)
  qed
qed

lemma adv_possessive_tables:
  "list_ex (\<lambda>(ind, patterns). list_ex (\<lambda>k. list_ex is_possessive (regex_of k)) (fst patterns))
     industry_patterns = False"
  "list_ex (\<lambda>(role_type, config). list_ex (\<lambda>k. list_ex is_possessive (regex_of k)) (fst config))
     adv_role_types = False"
  "list_ex (\<lambda>k. list_ex is_possessive (regex_of k)) soft_skill_patterns = False"
  "list_ex (\<lambda>(domain, config). list_ex (\<lambda>k. list_ex is_possessive (regex_of k)) (fst config))
     adv_tech_domains = True"
  "list_ex (\<lambda>(domain, config). list_ex (\<lambda>k. list_ex is_possessive (regex_of k)) (fst config))
     adv_business_domains = False"
  by code_simp+

lemma list_ex_refused_fst:
  "list_ex (\<lambda>(name, config). list_ex (refused minor) (fst config)) table =
     (minor < 11 \<and>
      list_ex (\<lambda>(name, config). list_ex (\<lambda>k. list_ex is_possessive (regex_of k)) (fst config)) table)"
  by (induction table) (auto simp add: refused_def list_ex_iff)

lemma list_ex_refused_plain:
  "list_ex (refused minor) kws =
     (minor < 11 \<and> list_ex (\<lambda>k. list_ex is_possessive (regex_of k)) kws)"
  by (induction kws) (auto simp add: refused_def)

lemma adv_refused_tables:
  "list_ex (\<lambda>(ind, patterns). list_ex (refused minor) (fst patterns)) industry_patterns = False"
  "list_ex (\<lambda>(role_type, config). list_ex (refused minor) (fst config)) adv_role_types = False"
  "list_ex (\<lambda>(domain, config). list_ex (refused minor) (fst config)) adv_tech_domains = (minor < 11)"
  "list_ex (\<lambda>(domain, config). list_ex (refused minor) (fst config)) adv_business_domains = False"
  "list_ex (refused minor) soft_skill_patterns = False"
proof -
  show "list_ex (refused minor) soft_skill_patterns = False"
    by (simp only: list_ex_refused_plain adv_possessive_tables simp_thms)
qed (simp_all only: list_ex_refused_fst adv_possessive_tables simp_thms)

lemma body_cases:
  "Surrogate \<in> set jd \<Longrightarrow> analyze_job_comprehensive_body minor jd = Inl UnicodeEncodeError"
  "Surrogate \<notin> set jd \<Longrightarrow> minor < 11 \<Longrightarrow> analyze_job_comprehensive_body minor jd = Inl ReError"
  "Surrogate \<notin> set jd \<Longrightarrow> 11 \<le> minor \<Longrightarrow>
     \<exists>r. analyze_job_comprehensive_body minor jd = Inr r \<and>
         res_job_role_type r \<in> set [''unknown'', ''technical_it'', ''business_analyst'', ''management''] \<and>
         res_primary_focus r \<in> set [''business'', ''technical''] \<and>
         res_experience_level r \<in> set [''senior'', ''junior'', ''mid'']"
proof -
  show "Surrogate \<in> set jd \<Longrightarrow> analyze_job_comprehensive_body minor jd = Inl UnicodeEncodeError"
    by (simp add: analyze_job_comprehensive_body_def encode_cases(1) raise_bind_simps)
  have "\<exists>v. classify_industry minor (characters jd) = Inr v"
    by (rule classify_industry_returns) (simp only: adv_refused_tables simp_thms)
  then obtain ia where ia: "classify_industry minor (characters jd) = Inr ia" by blast
  have "\<exists>v. classify_role_advanced minor (lower (characters jd)) = Inr v"
    by (rule classify_role_advanced_returns) (simp only: adv_refused_tables simp_thms)
  then obtain ra where ra: "classify_role_advanced minor (lower (characters jd)) = Inr ra" by blast
  have "\<exists>v. extract_skills_advanced minor (lower (characters jd)) = Inr v"
    by (rule extract_skills_advanced_returns) (simp only: adv_refused_tables simp_thms)
  then obtain sk where sk: "extract_skills_advanced minor (lower (characters jd)) = Inr sk" by blast
  obtain a b c d e where sk5: "sk = (a, b, c, d, e)" by (cases sk) auto
  have "\<exists>v. score_domains_advanced minor (lower (characters jd)) adv_business_domains ia = Inr v"
    by (rule score_domains_advanced_cases(2)) (simp only: adv_refused_tables simp_thms)
  then obtain bu where
    bu: "score_domains_advanced minor (lower (characters jd)) adv_business_domains ia = Inr bu"
    by blast
  have role: "fst ra \<in> set [''unknown'', ''technical_it'', ''business_analyst'', ''management'']"
    using classify_role_advanced_range [OF ra] by (simp add: adv_role_types_def)
  show "analyze_job_comprehensive_body minor jd = Inl ReError"
    if s: "Surrogate \<notin> set jd" and m: "minor < 11"
  proof -
    obtain bytes where en: "encode jd = Inr bytes" using encode_cases(2) [OF s] by blast
    have te: "score_domains_advanced minor (lower (characters jd)) adv_tech_domains ia = Inl ReError"
      by (rule score_domains_advanced_cases(1)) (use m in \<open>simp only: adv_refused_tables\<close>)
    show ?thesis
      by (simp add: analyze_job_comprehensive_body_def en ia ra sk te raise_bind_simps Let_def)
  qed
  show "\<exists>r. analyze_job_comprehensive_body minor jd = Inr r \<and>
         res_job_role_type r \<in> set [''unknown'', ''technical_it'', ''business_analyst'', ''management''] \<and>
         res_primary_focus r \<in> set [''business'', ''technical''] \<and>
         res_experience_level r \<in> set [''senior'', ''junior'', ''mid'']"
    if s: "Surrogate \<notin> set jd" and m: "11 \<le> minor"
  proof -
    obtain bytes where en: "encode jd = Inr bytes" using encode_cases(2) [OF s] by blast
    have "\<exists>v. score_domains_advanced minor (lower (characters jd)) adv_tech_domains ia = Inr v"
      by (rule score_domains_advanced_cases(2)) (use m in \<open>simp only: adv_refused_tables not_less\<close>)
    then obtain te where
      te: "score_domains_advanced minor (lower (characters jd)) adv_tech_domains ia = Inr te"
      by blast
    have lv: "fst (analyze_experience_requirements (lower (characters jd))) \<in> set [''senior'', ''junior'', ''mid'']"
      by (simp add: analyze_experience_requirements_def Let_def)
    show ?thesis
      using role lv
      by (simp add: analyze_job_comprehensive_body_def en ia ra sk sk5 te bu raise_bind_simps Let_def)
  qed
qed

lemma comprehensive_cases:
  "Surrogate \<in> set jd \<Longrightarrow> analyze_job_comprehensive minor jd = Inl UnicodeEncodeError"
  "Surrogate \<notin> set jd \<Longrightarrow> minor < 11 \<Longrightarrow>
     analyze_job_comprehensive minor jd =
       Inr (Fallback (graceful_degradation_data ''analyze_job_comprehensive''))"
  "Surrogate \<notin> set jd \<Longrightarrow> 11 \<le> minor \<Longrightarrow>
     \<exists>r. analyze_job_comprehensive minor jd = Inr (Result r) \<and>
         res_job_role_type r \<in> set [''unknown'', ''technical_it'', ''business_analyst'', ''management''] \<and>
         res_primary_focus r \<in> set [''business'', ''technical''] \<and>
         res_experience_level r \<in> set [''senior'', ''junior'', ''mid'']"
proof -
  show "Surrogate \<in> set jd \<Longrightarrow> analyze_job_comprehensive minor jd = Inl UnicodeEncodeError"
    by (simp add: analyze_job_comprehensive_def body_cases(1) with_error_handling_def
        handle_error_def get_error_rule_def)
  show "Surrogate \<notin> set jd \<Longrightarrow> minor < 11 \<Longrightarrow>
     analyze_job_comprehensive minor jd =
       Inr (Fallback (graceful_degradation_data ''analyze_job_comprehensive''))"
    by (simp add: analyze_job_comprehensive_def body_cases(2) with_error_handling_def
        handle_error_def get_error_rule_def fallback_recovery_def)
  show "\<exists>r. analyze_job_comprehensive minor jd = Inr (Result r) \<and>
         res_job_role_type r \<in> set [''unknown'', ''technical_it'', ''business_analyst'', ''management''] \<and>
         res_primary_focus r \<in> set [''business'', ''technical''] \<and>
         res_experience_level r \<in> set [''senior'', ''junior'', ''mid'']"
    if s: "Surrogate \<notin> set jd" and m: "11 \<le> minor"
  proof -
    from body_cases(3) [OF s m] obtain r where
      r: "analyze_job_comprehensive_body minor jd = Inr r" and
      p: "res_job_role_type r \<in> set [''unknown'', ''technical_it'', ''business_analyst'', ''management'']"
         "res_primary_focus r \<in> set [''business'', ''technical'']"
         "res_experience_level r \<in> set [''senior'', ''junior'', ''mid'']"
      by blast
    have "analyze_job_comprehensive minor jd = Inr (Result r)"
      by (simp add: analyze_job_comprehensive_def r with_error_handling_def)
    with p show ?thesis by blast
  qed
qed

text \<open>
  Claim C6. The analysers raise on some descriptions, and the advanced analyser can
  return what is no profile.

  \<^item> A description that holds a lone surrogate, on every version: the first statement of
    \<^verbatim>\<open>analyze_job_comprehensive\<close> encodes the description and raises
    \<open>UnicodeEncodeError\<close>. The rule of the error handler for a \<open>ValueError\<close> is to skip
    the operation; the wrapper does not see that, finds no fallback data, and raises the
    exception again.
  \<^item> The empty description on Python 3.10: \<^verbatim>\<open>analyze_job_requirements\<close> raises
    \<^verbatim>\<open>re.error\<close> when it compiles the keyword \<^verbatim>\<open>c++\<close>. In \<^verbatim>\<open>analyze_job_comprehensive\<close>
    the same error is answered by the error handler with its data of graceful degradation,
    a dictionary that is no \<^verbatim>\<open>JobAnalysisResult\<close> and has no role type.
  \<^item> The empty description on Python 3.11: both analysers return the profile of the claim,
    with the role type \<open>unknown\<close> and no required skill.

  The lemmas \<open>analyze_job_requirements_on_raises\<close> and \<open>comprehensive_cases\<close> above say
  for which versions and descriptions each of these happens.
\<close>

theorem analysers_raise_or_degrade:
  "analyze_job_comprehensive minor (before @ Surrogate # rest) = Inl UnicodeEncodeError \<and>
   analyze_job_requirements_on 10 [] = Inl ReError \<and>
   analyze_job_comprehensive 10 [] =
     Inr (Fallback
       (PyDict [(''mode'', PyStr ''degraded''),
                (''features_disabled'', PyList [PyStr ''analyze_job_comprehensive'']),
                (''fallback_message'',
                   PyStr ''Operating in degraded mode due to analyze_job_comprehensive failure'')])) \<and>
   analyze_job_requirements_on 11 [] =
     Inr \<lparr>required_skills = [], preferred_skills = [], tech_domains = [],
          business_domains = [], experience_level = ''mid'',
          key_responsibilities = [], company_focus = [],
          explicit_technologies = [], job_role_type = ''unknown'',
          primary_focus = ''technical''\<rparr> \<and>
   analyze_job_comprehensive 11 [] =
     Inr (Result
       \<lparr>res_job_role_type = ''unknown'', res_primary_focus = ''technical'',
        res_confidence_score = 0, res_required_skills = [],
        res_preferred_skills = [], res_tech_domains = [],
        res_business_domains = [],
        res_industry_context =
          \<lparr>industry = ''general'', ic_confidence = 1 / 2, all_scores = [], indicators = []\<rparr>,
        res_experience_level = ''mid'', res_company_size = ''medium'',
        res_role_complexity = 1 / 2, res_explicit_technologies = [],
        res_soft_skills = [], res_key_responsibilities = [],
        res_compensation_indicators = (0, False), res_growth_potential = 0,
        res_remote_work_indicators = []\<rparr>)"
proof -
  have s: "analyze_job_comprehensive minor (before @ Surrogate # rest) = Inl UnicodeEncodeError"
    by (rule comprehensive_cases(1)) simp
  have a: "analyze_job_requirements_on 10 [] = Inl ReError"
    by code_simp
  have b: "analyze_job_comprehensive 10 [] =
     Inr (Fallback
       (PyDict [(''mode'', PyStr ''degraded''),
                (''features_disabled'', PyList [PyStr ''analyze_job_comprehensive'']),
                (''fallback_message'',
                   PyStr ''Operating in degraded mode due to analyze_job_comprehensive failure'')]))"
    by code_simp
  have c: "analyze_job_requirements_on 11 [] =
     Inr \<lparr>required_skills = [], preferred_skills = [], tech_domains = [],
          business_domains = [], experience_level = ''mid'',
          key_responsibilities = [], company_focus = [],
          explicit_technologies = [], job_role_type = ''unknown'',
          primary_focus = ''technical''\<rparr>"
    by code_simp
  have d: "analyze_job_comprehensive 11 [] =
     Inr (Result
       \<lparr>res_job_role_type = ''unknown'', res_primary_focus = ''technical'',
        res_confidence_score = 0, res_required_skills = [],
        res_preferred_skills = [], res_tech_domains = [],
        res_business_domains = [],
        res_industry_context =
          \<lparr>industry = ''general'', ic_confidence = 1 / 2, all_scores = [], indicators = []\<rparr>,
        res_experience_level = ''mid'', res_company_size = ''medium'',
        res_role_complexity = 1 / 2, res_explicit_technologies = [],
        res_soft_skills = [], res_key_responsibilities = [],
        res_compensation_indicators = (0, False), res_growth_potential = 0,
        res_remote_work_indicators = []\<rparr>)"
    by code_simp
  from s a b c d show ?thesis by (intro conjI)
qed

section \<open>The range of the skill score\<close>

lemma domain_matching_ok:
  "domains_ok domains items \<Longrightarrow> 0 \<le> score \<Longrightarrow>
   \<exists>r. domain_matching domains items name ctx score = Inr r \<and> 0 \<le> r"
proof (induction items arbitrary: score)
  case Nil
  then show ?case by simp
next
  case (Cons item items)
  obtain d w where item: "item = (d, w)" by (cases item)
  from Cons.prems item obtain kws where kws: "map_of domains d = Some kws" and w: "0 \<le> w"
    and rest: "domains_ok domains items"
    by (auto simp: domains_ok_def)
  have "0 \<le> sum_list (map (\<lambda>keyword.
      if py_in keyword name \<or> py_in keyword ctx then min (w / 10) (8 / 10) else 0) kws)"
    by (rule sum_list_nonneg) (use w in auto)
  with Cons.prems have "0 \<le> score + sum_list (map (\<lambda>keyword.
      if py_in keyword name \<or> py_in keyword ctx then min (w / 10) (8 / 10) else 0) kws)"
    by simp
  from Cons.IH [OF rest this] show ?case by (simp add: item kws)
qed

lemma score_business_skill_ok:
  assumes "domains_ok self_business_domains (business_domains ja)"
  shows "\<exists>b. score_business_skill name ctx ja = Inr b \<and> 0 \<le> b"
proof -
  from domain_matching_ok [OF assms, of 0 name ctx]
  obtain r where "domain_matching self_business_domains (business_domains ja) name ctx 0 = Inr r"
    and "0 \<le> r" by auto
  then show ?thesis by (auto simp: score_business_skill_def Let_def max_def)
qed

lemma score_technical_skill_ok:
  assumes "domains_ok self_tech_domains (tech_domains ja)"
  shows "\<exists>t. score_technical_skill name ctx ja = Inr t \<and> 0 \<le> t"
proof -
  from domain_matching_ok [OF assms, of 0 name ctx]
  obtain r where "domain_matching self_tech_domains (tech_domains ja) name ctx 0 = Inr r"
    and "0 \<le> r" by auto
  then show ?thesis by (simp add: score_technical_skill_def Let_def)
qed

lemma direct_matches_nonneg: "0 \<le> points \<Longrightarrow> 0 \<le> direct_matches wanted name ctx points"
  unfolding direct_matches_def by (rule sum_list_nonneg) auto

lemma score_skill_relevance_ok:
  assumes t: "domains_ok self_tech_domains (tech_domains ja)"
    and b: "domains_ok self_business_domains (business_domains ja)"
  shows "\<exists>r. score_skill_relevance skill ja = Inr r \<and> 0 \<le> r \<and> r \<le> 1"
proof -
  let ?n = "lower (skill_name skill)" and ?c = "lower (skill_context skill)"
  obtain bs where bs: "score_business_skill ?n ?c ja = Inr bs" "0 \<le> bs"
    using score_business_skill_ok [OF b] by blast
  obtain ts where ts: "score_technical_skill ?n ?c ja = Inr ts" "0 \<le> ts"
    using score_technical_skill_ok [OF t] by blast
  have r: "0 \<le> direct_matches (required_skills ja) ?n ?c (8 / 10)"
    by (rule direct_matches_nonneg) simp
  have p: "0 \<le> direct_matches (preferred_skills ja) ?n ?c (5 / 10)"
    by (rule direct_matches_nonneg) simp
  have m: "0 \<le> bs * (6 / 10)" "0 \<le> ts * (6 / 10)" using bs ts by simp_all
  show ?thesis
    using r p m bs ts by (simp add: score_skill_relevance_def Let_def)
qed

lemma score_skills_ok:
  assumes t: "domains_ok self_tech_domains (tech_domains ja)"
    and b: "domains_ok self_business_domains (business_domains ja)"
  shows "\<exists>scored. score_skills ja items = Inr scored"
proof (induction items)
  case Nil
  then show ?case by simp
next
  case (Cons item items)
  obtain k sd where item: "item = (k, sd)" by (cases item)
  obtain r where "score_skill_relevance sd ja = Inr r"
    using score_skill_relevance_ok [OF t b] by blast
  with Cons show ?case by (auto simp: item)
qed

lemma final_score_clamped:
  "\<exists>x. final_score (score_skill_comprehensive skill job_analysis) = max 0 (min 1 x)"
  unfolding score_skill_comprehensive_def Let_def SkillRelevanceScore.select_convs
  by (rule exI) (rule refl)

text \<open>
  Claim C4. For every skill record and every profile the first analyser returns, the
  first scorer returns a score, raises nothing, and the score lies between 0 and 1. The
  final score of the comprehensive scorer lies between 0 and 1 for every skill record and
  every analysis result. Both scorers are functions of the skill and the profile alone:
  they read no other state, so scoring a pair twice gives the same score.
\<close>

theorem skill_score_in_unit_interval:
  "(\<exists>r. score_skill_relevance skill (analyze_job_requirements jd) = Inr r \<and> 0 \<le> r \<and> r \<le> 1) \<and>
   0 \<le> final_score (score_skill_comprehensive skill job_analysis) \<and>
   final_score (score_skill_comprehensive skill job_analysis) \<le> 1"
proof -
  have "\<exists>r. score_skill_relevance skill (analyze_job_requirements jd) = Inr r \<and> 0 \<le> r \<and> r \<le> 1"
    using analyze_domains_ok [of jd] by (auto intro: score_skill_relevance_ok)
  moreover have "0 \<le> final_score (score_skill_comprehensive skill job_analysis) \<and>
      final_score (score_skill_comprehensive skill job_analysis) \<le> 1"
    using final_score_clamped [of skill job_analysis] by auto
  ultimately show ?thesis by blast
qed

section \<open>The cluster layer of the semantic similarity\<close>

lemma misplaced_listed_terms:
  "filter (\<lambda>(cluster_name, term). find_cluster term \<noteq> Some cluster_name) listed_terms =
     [(''project_management'', ''resource planning'')]"
  by code_simp

text \<open>
  Claim C5. The table lists \<open>resource planning\<close> and \<open>kanban\<close> in the one cluster
  \<open>project_management\<close>, and no earlier layer applies to the pair, so the rule of the
  claim gives them 0.7. The lookup tests every entry of the table as a substring and
  answers with the first cluster that has a hit: for \<open>resource planning\<close> that is
  \<open>network_administration\<close>, whose entry \<open>lan\<close> occurs inside \<open>planning\<close>. The two
  clusters differ, the terms share no token, and the similarity is 0. Two other entries of
  the same cluster, \<open>scrum\<close> and \<open>kanban\<close>, get 0.7.
\<close>

theorem listed_cluster_terms_not_matched:
  "spec_shared_cluster ''resource planning'' ''kanban'' \<and>
   find_cluster ''resource planning'' = Some ''network_administration'' \<and>
   find_cluster ''kanban'' = Some ''project_management'' \<and>
   calculate_semantic_similarity ''resource planning'' ''kanban'' = 0 \<and>
   spec_shared_cluster ''scrum'' ''kanban'' \<and>
   calculate_semantic_similarity ''scrum'' ''kanban'' = 7 / 10"
  by code_simp

section \<open>The selection of skills\<close>

lemma analysis10: "analyze_job_requirements jd10 =
  \<lparr>required_skills = [], preferred_skills = [], tech_domains = [(''databases'', 1)],
    business_domains = [], experience_level = ''mid'',
    key_responsibilities = [], company_focus = [],
    explicit_technologies = [], job_role_type = ''unknown'',
    primary_focus = ''technical''\<rparr>"
  by code_simp

lemma score_skills_floor:
  "score_skills job_analysis items = Inr scored \<Longrightarrow>
   list_all (\<lambda>(skill, r). score_skill_relevance skill job_analysis = Inr r \<and> r > 1 / 10) scored \<and>
   map fst scored =
     map snd (filter (\<lambda>(k, skill).
       case score_skill_relevance skill job_analysis of Inl e \<Rightarrow> False | Inr r \<Rightarrow> r > 1 / 10) items)"
proof (induction items arbitrary: scored)
  case Nil
  then show ?case by simp
next
  case (Cons item items)
  obtain k skill where item: "item = (k, skill)" by (cases item)
  from Cons.prems obtain r rest where r: "score_skill_relevance skill job_analysis = Inr r"
    and rest: "score_skills job_analysis items = Inr rest"
    and scored: "scored = (if r > 1 / 10 then (skill, r) # rest else rest)"
    by (auto simp: item split: sum.splits)
  from Cons.IH [OF rest] show ?case by (simp add: item r scored)
qed

lemma list_of_length_four:
  "length xs = 4 \<Longrightarrow> \<exists>a b c d. xs = [a, b, c, d]"
  by (auto simp: numeral_eq_Suc length_Suc_conv)

lemma get_relevant_memories_skills:
  "score_skills (analyze_job_requirements jd) (get_current_skills mc) = Inr scored \<Longrightarrow>
   \<exists>r. get_relevant_memories mc jd max_skills max_styles = Inr r \<and>
       relevant_skills r = map fst (py_take max_skills (sort_by_relevance scored)) \<and>
       rm_temporal_events r = get_current_temporal_events mc"
  by (simp add: get_relevant_memories_def Let_def)

text \<open>
  Claim C1, as amended. When ten skills are stored, exactly four of them score above the
  floor of 0.1 and at most three are asked for, the selection returns three of the four:
  they are in descending order of score, and the one left out scores no more than any of
  them. The list \<open>scored\<close> is the list of the skills above the floor with their scores.
\<close>

theorem get_relevant_memories_top_three:
  assumes "length (get_current_skills mc) = 10"
    and "score_skills (analyze_job_requirements jd) (get_current_skills mc) = Inr scored"
    and "length scored = 4"
  shows "\<exists>r top omitted.
           get_relevant_memories mc jd 3 max_styles = Inr r \<and>
           relevant_skills r = map fst top \<and>
           length top = 3 \<and>
           mset (top @ [omitted]) = mset scored \<and>
           sorted (rev (map snd top)) \<and>
           (\<forall>x \<in> set top. snd omitted \<le> snd x)"
proof -
  have len: "length (sort_by_relevance scored) = 4"
    using assms(3) by (simp add: sort_by_relevance_def)
  then obtain a b c d where s: "sort_by_relevance scored = [a, b, c, d]"
    using list_of_length_four by blast
  have "sorted (map (\<lambda>x. - snd x) (sort_by_relevance scored))"
    unfolding sort_by_relevance_def by (rule sorted_sort_key)
  then have ord: "snd b \<le> snd a" "snd c \<le> snd b" "snd d \<le> snd c"
    by (simp_all add: s)
  have m: "mset ([a, b, c] @ [d]) = mset scored"
    using mset_sort [of "\<lambda>x. - snd x" scored] by (simp add: s flip: sort_by_relevance_def)
  obtain r where r: "get_relevant_memories mc jd 3 max_styles = Inr r"
    and rs: "relevant_skills r = map fst (py_take 3 (sort_by_relevance scored))"
    using get_relevant_memories_skills [OF assms(2)] by blast
  have rs': "relevant_skills r = map fst [a, b, c]"
    by (simp add: rs s py_take_def)
  have "sorted (rev (map snd [a, b, c]))" using ord by simp
  moreover have "\<forall>x \<in> set [a, b, c]. snd d \<le> snd x" using ord by auto
  ultimately show ?thesis using r rs' m by (intro exI [of _ r] exI [of _ "[a, b, c]"] exI [of _ d]) simp
qed

lemma store10_size: "length (get_current_skills store10) = 10"
  by code_simp

lemma store10_scored:
  "score_skills (analyze_job_requirements jd10) (get_current_skills store10) =
     Inr scored10"
  unfolding analysis10 by code_simp

lemma scored10_size: "length scored10 = 4"
  by (simp add: scored10_def)

theorem get_relevant_memories_top_three_witness:
  "length (get_current_skills store10) = 10 \<and>
   score_skills (analyze_job_requirements jd10) (get_current_skills store10) =
     Inr scored10 \<and>
   (\<exists>r top omitted.
      get_relevant_memories store10 jd10 3 5 = Inr r \<and>
      relevant_skills r = map fst top \<and>
      length top = 3 \<and>
      mset (top @ [omitted]) =
        mset scored10 \<and>
      sorted (rev (map snd top)) \<and>
      (\<forall>x \<in> set top. snd omitted \<le> snd x))"
  using get_relevant_memories_top_three [OF store10_size store10_scored scored10_size, of 5]
    store10_size store10_scored
  by simp

text \<open>
  With ten skills stored and four of them above the floor, a selection of at most three
  returns three skills, not the four.
\<close>

theorem four_above_floor_counterexample:
  "length (get_current_skills store10) = 10 \<and>
   score_skills (analyze_job_requirements jd10) (get_current_skills store10) =
     Inr scored10 \<and>
   map_sum id relevant_skills (get_relevant_memories store10 jd10 3 5) =
     Inr [listed_skill ''NoSQL MongoDB database'', listed_skill ''MySQL database'',
          listed_skill ''Oracle database'']"
proof -
  have "map_sum id relevant_skills (get_relevant_memories store10 jd10 3 5) =
     Inr [listed_skill ''NoSQL MongoDB database'', listed_skill ''MySQL database'',
          listed_skill ''Oracle database'']"
    unfolding get_relevant_memories_def Let_def store10_scored analysis10 by code_simp
  with store10_size store10_scored show ?thesis by simp
qed

section \<open>The temporal events of the selection\<close>

text \<open>
  Claim C2. The selection takes the events that \<open>get_current_temporal_events\<close> returns,
  with no relevance score involved; that function keeps the events whose status is
  \<open>current\<close> or \<open>upcoming\<close> only. An event three days before its start has the
  status \<open>starting_soon\<close>, and the selection over a store that holds this one event has
  no temporal event.
\<close>

theorem starting_soon_event_left_out:
  "status soon_event = ''starting_soon'' \<and>
   temporal_events (memory_data soon_core) = [soon_event] \<and>
   get_current_temporal_events soon_core = [] \<and>
   map_sum id rm_temporal_events (get_relevant_memories soon_core [] 15 5) = Inr []"
  by code_simp

end
